theory Spec2Isabelle
  imports Main "HOL-Library.AList"
begin

section \<open>JavaScript values as the handlers see them\<close>

text \<open>
  A request or response body is what \<^verbatim>\<open>express.json()\<close> or \<^verbatim>\<open>response.json()\<close> hands to
  the handlers: a parsed JSON value. An object is an association list in insertion order; a
  property that is absent reads as \<^verbatim>\<open>undefined\<close>, which is \<open>None\<close> here. Numbers are integers:
  the handlers only test a number for truthiness, copy it, or have the runtime print it
  into a string.
\<close>

datatype json =
    JNull
  | JBool bool
  | JNum int
  | JStr string
  | JArr "json list"
  | JObj "(string \<times> json) list"

type_synonym obj = "(string \<times> json) list"

text \<open>
  What the code can throw. \<open>TypeError\<close> is the runtime's (a property read on \<^verbatim>\<open>null\<close>, a call
  of something that is not a function); \<open>InvalidResponseObject\<close> is the adapter's own
  \<^verbatim>\<open>new Error('Invalid response object')\<close>; \<open>SyntaxError\<close> is \<^verbatim>\<open>response.json()\<close> on a body
  that is not JSON; \<open>Thrown\<close> is an exception of a collaborator (credential lookup, fetch).
\<close>

datatype error = TypeError | InvalidResponseObject | SyntaxError | Thrown string

text \<open>\<^verbatim>\<open>if (v)\<close>, \<^verbatim>\<open>!v\<close>, \<^verbatim>\<open>v || d\<close>, \<^verbatim>\<open>v && w\<close>: JavaScript truthiness.\<close>

fun truthy :: "json \<Rightarrow> bool" where
  "truthy JNull = False"
| "truthy (JBool b) = b"
| "truthy (JNum n) = (n \<noteq> 0)"
| "truthy (JStr s) = (s \<noteq> [])"
| "truthy (JArr xs) = True"
| "truthy (JObj kvs) = True"

text \<open>
  \<^verbatim>\<open>v.k\<close> for the keys the handlers read (\<^verbatim>\<open>model\<close>, \<^verbatim>\<open>role\<close>, \<^verbatim>\<open>content\<close>, \<^verbatim>\<open>type\<close>, \<^verbatim>\<open>text\<close>, ...):
  an own property of an object, a \<^verbatim>\<open>TypeError\<close> on \<^verbatim>\<open>null\<close>, and \<^verbatim>\<open>undefined\<close> on a boolean,
  number, string or array, none of which has a member of these names.
\<close>

fun get_prop :: "json \<Rightarrow> string \<Rightarrow> error + json option" where
  "get_prop JNull k = Inl TypeError"
| "get_prop (JObj kvs) k = Inr (map_of kvs k)"
| "get_prop (JBool b) k = Inr None"
| "get_prop (JNum n) k = Inr None"
| "get_prop (JStr s) k = Inr None"
| "get_prop (JArr xs) k = Inr None"

text \<open>\<^verbatim>\<open>v?.k\<close>: as \<^verbatim>\<open>v.k\<close>, but \<^verbatim>\<open>undefined\<close> when \<^verbatim>\<open>v\<close> is \<^verbatim>\<open>undefined\<close> or \<^verbatim>\<open>null\<close>.\<close>

definition opt_prop :: "json option \<Rightarrow> string \<Rightarrow> json option" where
  "opt_prop v k = (case v of Some (JObj kvs) \<Rightarrow> map_of kvs k | _ \<Rightarrow> None)"

subsection \<open>Numbers and values printed into strings\<close>

definition digit :: "nat \<Rightarrow> char" where
  "digit d = ''0123456789'' ! d"

function show_nat :: "nat \<Rightarrow> string" where
  "show_nat n = (if n < 10 then [digit n] else show_nat (n div 10) @ [digit (n mod 10)])"
  by pat_completeness auto
termination
  by (relation "measure id") auto

declare show_nat.simps [simp del]

definition show_int :: "int \<Rightarrow> string" where
  "show_int i = (if i < 0 then CHR ''-'' # show_nat (nat (- i)) else show_nat (nat i))"

fun join_comma :: "string list \<Rightarrow> string" where
  "join_comma [] = []"
| "join_comma [s] = s"
| "join_comma (s # t # ss) = s @ '','' @ join_comma (t # ss)"

text \<open>
  A JSON value printed into a string, as a template literal, \<^verbatim>\<open>'s' + v\<close> and \<^verbatim>\<open>join\<close> do it.
  A number is printed by the runtime (\<^verbatim>\<open>Number.prototype.toString\<close>), which is the parameter
  \<open>num\<close>. An array prints its elements joined by commas, \<^verbatim>\<open>null\<close> elements as the empty
  string. An object prints as \<^verbatim>\<open>[object Object]\<close> through the inherited \<^verbatim>\<open>toString\<close>; when it
  has a \<^verbatim>\<open>toString\<close> property of its own, that property (a JSON value, not a function) hides
  the inherited method, \<^verbatim>\<open>valueOf\<close> returns the object itself, and the conversion throws a
  \<^verbatim>\<open>TypeError\<close>.
\<close>

fun collect :: "(error + string) list \<Rightarrow> error + string list" where
  "collect [] = Inr []"
| "collect (r # rs) =
     (case r of
        Inl e \<Rightarrow> Inl e
      | Inr x \<Rightarrow> (case collect rs of Inl e \<Rightarrow> Inl e | Inr xs \<Rightarrow> Inr (x # xs)))"

fun to_str :: "(int \<Rightarrow> string) \<Rightarrow> json \<Rightarrow> error + string" where
  "to_str num JNull = Inr ''null''"
| "to_str num (JBool b) = Inr (if b then ''true'' else ''false'')"
| "to_str num (JNum n) = Inr (num n)"
| "to_str num (JStr s) = Inr s"
| "to_str num (JArr xs) =
     (case collect (map (\<lambda>x. if x = JNull then Inr [] else to_str num x) xs) of
        Inl e \<Rightarrow> Inl e
      | Inr ss \<Rightarrow> Inr (join_comma ss))"
| "to_str num (JObj kvs) =
     (if map_of kvs ''toString'' = None then Inr ''[object Object]'' else Inl TypeError)"

text \<open>
  \<^verbatim>\<open>{...v}\<close>: the own enumerable properties of \<^verbatim>\<open>v\<close>. An array spreads into its indices, a
  string into its characters, anything else into nothing.
\<close>

definition spread :: "json \<Rightarrow> obj" where
  "spread v = (case v of
       JObj kvs \<Rightarrow> kvs
     | JArr xs \<Rightarrow> zip (map show_nat [0..<length xs]) xs
     | JStr s \<Rightarrow> zip (map show_nat [0..<length s]) (map (\<lambda>c. JStr [c]) s)
     | _ \<Rightarrow> [])"

text \<open>
  \<^verbatim>\<open>o.k = v\<close> is \<open>AList.update k v o\<close> (the value is replaced where the key stands, a new key goes
  last), \<^verbatim>\<open>delete o.k\<close> is \<open>AList.delete k o\<close>, and \<^verbatim>\<open>o.k\<close> is \<open>map_of o k\<close>.
\<close>

section \<open>The collaborators: registry, credentials, upstream\<close>

text \<open>
  \<^verbatim>\<open>config.js\<close>, \<^verbatim>\<open>auth.js\<close>, the Anthropic and OpenAI transformers and \<^verbatim>\<open>node-fetch\<close> are not
  part of the sources at hand. Their functions are parameters of the model: the handlers
  are verified for every registry, every transformer and every upstream answer.
  \<open>date_now\<close> is the value \<^verbatim>\<open>Date.now()\<close> reads during the call, and \<open>numberToString\<close> is how the
  runtime prints a number of a JSON body into a string.
\<close>

record model =
  model_type :: string

record endpoint =
  base_url :: string

record env =
  getSystemPrompt :: "string option"
  getModelReasoning :: "json option \<Rightarrow> string option"
  getRedirectedModelId :: "json option \<Rightarrow> json option"
  getModelById :: "json \<Rightarrow> model option"
  getEndpointByType :: "string \<Rightarrow> endpoint option"
  transformToAnthropic :: "obj \<Rightarrow> error + json"
  transformToOpenAI :: "obj \<Rightarrow> error + json"
  anthropicTransformStream :: "json \<Rightarrow> string \<Rightarrow> string list \<Rightarrow> string list"
  openaiTransformStream :: "json \<Rightarrow> string \<Rightarrow> string list \<Rightarrow> string list"
  date_now :: nat
  numberToString :: "int \<Rightarrow> string"

text \<open>\<^verbatim>\<open>if (systemPrompt)\<close>: a prompt is configured when it is a non-empty string.\<close>

definition configured_prompt :: "env \<Rightarrow> string option" where
  "configured_prompt e =
     (case getSystemPrompt e of None \<Rightarrow> None | Some p \<Rightarrow> if p = [] then None else Some p)"

section \<open>\<^verbatim>\<open>transformers/request-common.js\<close>\<close>

text \<open>\<^verbatim>\<open>m => m.role === 'system'\<close>\<close>

definition is_system :: "json \<Rightarrow> error + bool" where
  "is_system m =
     (case get_prop m ''role'' of Inl e \<Rightarrow> Inl e | Inr r \<Rightarrow> Inr (r = Some (JStr ''system'')))"

text \<open>\<^verbatim>\<open>messages.some(m => m.role === 'system')\<close>: stops at the first hit.\<close>

fun some_system :: "json list \<Rightarrow> error + bool" where
  "some_system [] = Inr False"
| "some_system (m # ms) =
     (case is_system m of
        Inl e \<Rightarrow> Inl e
      | Inr b \<Rightarrow> if b then Inr True else some_system ms)"

text \<open>\<^verbatim>\<open>messages.findIndex(m => m.role === 'system')\<close>, counting from \<open>i\<close>; \<open>-1\<close> when none.\<close>

fun findIndex_system :: "nat \<Rightarrow> json list \<Rightarrow> error + int" where
  "findIndex_system i [] = Inr (- 1)"
| "findIndex_system i (m # ms) =
     (case is_system m of
        Inl e \<Rightarrow> Inl e
      | Inr b \<Rightarrow> if b then Inr (int i) else findIndex_system (Suc i) ms)"

text \<open>
  The callback of \<^verbatim>\<open>commonRequest.messages.map((msg, index) => ...)\<close>: the first system
  message is replaced by a fresh \<^verbatim>\<open>{role, content}\<close> object whose content is the prompt
  followed by the old content when that is a string, and by nothing otherwise.
\<close>

definition prepend_callback :: "string \<Rightarrow> json list \<Rightarrow> json \<Rightarrow> nat \<Rightarrow> error + json" where
  "prepend_callback systemPrompt messages msg index =
     (case is_system msg of
        Inl e \<Rightarrow> Inl e
      | Inr b \<Rightarrow>
          (case (if b then (case findIndex_system 0 messages of
                              Inl e \<Rightarrow> Inl e
                            | Inr j \<Rightarrow> Inr (int index = j))
                 else Inr False) of
             Inl e \<Rightarrow> Inl e
           | Inr hit \<Rightarrow>
               if hit then
                 (case get_prop msg ''content'' of
                    Inl e \<Rightarrow> Inl e
                  | Inr c \<Rightarrow>
                      Inr (JObj [(''role'', JStr ''system''),
                                 (''content'', JStr (systemPrompt @
                                    (case c of Some (JStr s) \<Rightarrow> s | _ \<Rightarrow> [])))]))
               else Inr msg))"

fun map_indexed :: "(json \<Rightarrow> nat \<Rightarrow> error + json) \<Rightarrow> nat \<Rightarrow> json list \<Rightarrow> error + json list" where
  "map_indexed f i [] = Inr []"
| "map_indexed f i (x # xs) =
     (case f x i of
        Inl e \<Rightarrow> Inl e
      | Inr y \<Rightarrow>
          (case map_indexed f (Suc i) xs of
             Inl e \<Rightarrow> Inl e
           | Inr ys \<Rightarrow> Inr (y # ys)))"

text \<open>
  The body of \<^verbatim>\<open>if (systemPrompt) { ... }\<close> in \<^verbatim>\<open>transformToCommon\<close>. \<^verbatim>\<open>messages?.some\<close> is skipped on
  \<^verbatim>\<open>undefined\<close> and \<^verbatim>\<open>null\<close>, runs on an array and is a \<^verbatim>\<open>TypeError\<close> on anything else (no such
  method).
\<close>

definition prepend_system_prompt :: "string \<Rightarrow> obj \<Rightarrow> error + obj" where
  "prepend_system_prompt systemPrompt commonRequest =
     (let inserted = (\<lambda>old. Inr (AList.update ''messages''
             (JArr (JObj [(''role'', JStr ''system''), (''content'', JStr systemPrompt)] # old))
             commonRequest))
      in case map_of commonRequest ''messages'' of
           None \<Rightarrow> inserted []
         | Some JNull \<Rightarrow> inserted []
         | Some (JArr ms) \<Rightarrow>
             (case some_system ms of
                Inl err \<Rightarrow> Inl err
              | Inr hasSystemMessage \<Rightarrow>
                  if hasSystemMessage then
                    (case map_indexed (prepend_callback systemPrompt ms) 0 ms of
                       Inl err \<Rightarrow> Inl err
                     | Inr ms' \<Rightarrow> Inr (AList.update ''messages'' (JArr ms') commonRequest))
                  else inserted ms)
         | Some _ \<Rightarrow> Inl TypeError)"

text \<open>\<^verbatim>\<open>transformToCommon(openaiRequest)\<close>. The argument is the object literal the chat handler builds.\<close>

definition transformToCommon :: "env \<Rightarrow> obj \<Rightarrow> error + obj" where
  "transformToCommon e openaiRequest =
     (let commonRequest = openaiRequest in
      case (case configured_prompt e of
              None \<Rightarrow> Inr commonRequest
            | Some systemPrompt \<Rightarrow> prepend_system_prompt systemPrompt commonRequest) of
        Inl err \<Rightarrow> Inl err
      | Inr commonRequest \<Rightarrow>
          (case getModelReasoning e (map_of openaiRequest ''model'') of
             None \<Rightarrow> Inr (AList.delete ''reasoning_effort'' commonRequest)
           | Some reasoningLevel \<Rightarrow>
               if reasoningLevel = ''auto'' then Inr commonRequest
               else if reasoningLevel \<noteq> [] \<and> reasoningLevel \<in> set [''low'', ''medium'', ''high'']
               then Inr (AList.update ''reasoning_effort'' (JStr reasoningLevel) commonRequest)
               else Inr (AList.delete ''reasoning_effort'' commonRequest)))"

section \<open>\<^verbatim>\<open>routes.js\<close>: the non-streaming adapter\<close>

text \<open>\<^verbatim>\<open>(resp.output || []).find(o => o.type === 'message')\<close> on an array.\<close>

fun find_message :: "json list \<Rightarrow> error + json option" where
  "find_message [] = Inr None"
| "find_message (item # items) =
     (case get_prop item ''type'' of
        Inl e \<Rightarrow> Inl e
      | Inr t \<Rightarrow> if t = Some (JStr ''message'') then Inr (Some item) else find_message items)"

text \<open>\<^verbatim>\<open>content.filter(c => c.type === 'output_text')\<close> on an array.\<close>

fun filter_output_text :: "json list \<Rightarrow> error + json list" where
  "filter_output_text [] = Inr []"
| "filter_output_text (c # cs) =
     (case get_prop c ''type'' of
        Inl e \<Rightarrow> Inl e
      | Inr t \<Rightarrow>
          (case filter_output_text cs of
             Inl e \<Rightarrow> Inl e
           | Inr r \<Rightarrow> Inr (if t = Some (JStr ''output_text'') then c # r else r)))"

text \<open>
  \<^verbatim>\<open>textBlocks.map(c => c.text).join('')\<close>: \<^verbatim>\<open>join\<close> prints \<^verbatim>\<open>undefined\<close> and \<^verbatim>\<open>null\<close> as the
  empty string and every other element as \<open>to_str\<close> does.
\<close>

fun join_texts :: "(int \<Rightarrow> string) \<Rightarrow> json list \<Rightarrow> error + string" where
  "join_texts num [] = Inr []"
| "join_texts num (c # cs) =
     (case (case opt_prop (Some c) ''text'' of
              None \<Rightarrow> Inr []
            | Some JNull \<Rightarrow> Inr []
            | Some v \<Rightarrow> to_str num v) of
        Inl e \<Rightarrow> Inl e
      | Inr s \<Rightarrow> (case join_texts num cs of Inl e \<Rightarrow> Inl e | Inr r \<Rightarrow> Inr (s @ r)))"

text \<open>\<^verbatim>\<open>id.replace(/^resp_/, 'chatcmpl-')\<close>\<close>

definition replace_resp_prefix :: "string \<Rightarrow> string" where
  "replace_resp_prefix s = (if take 5 s = ''resp_'' then ''chatcmpl-'' @ drop 5 s else s)"

text \<open>\<^verbatim>\<open>v ?? 0\<close>\<close>

definition or_zero :: "json option \<Rightarrow> json" where
  "or_zero v = (case v of None \<Rightarrow> JNum 0 | Some JNull \<Rightarrow> JNum 0 | Some j \<Rightarrow> j)"

text \<open>\<^verbatim>\<open>v || d\<close>\<close>

definition or_else :: "json option \<Rightarrow> json \<Rightarrow> json" where
  "or_else v d = (case v of None \<Rightarrow> d | Some j \<Rightarrow> if truthy j then j else d)"

text \<open>
  \<^verbatim>\<open>convertResponseToChatCompletion(resp)\<close>, with \<open>num\<close> the runtime's printing of numbers and
  \<open>now\<close> the clock in milliseconds (the two reads of \<^verbatim>\<open>Date.now()\<close> in one call see the same
  instant). A value
  that passes the first test is an object or an array (\<^verbatim>\<open>typeof [] === 'object'\<close>); calling
  \<^verbatim>\<open>find\<close>, \<^verbatim>\<open>filter\<close> or \<^verbatim>\<open>replace\<close> on a value that has no such method is a \<^verbatim>\<open>TypeError\<close>.
\<close>

definition convertResponseToChatCompletion :: "(int \<Rightarrow> string) \<Rightarrow> nat \<Rightarrow> json \<Rightarrow> error + json" where
  "convertResponseToChatCompletion num now resp =
     (if \<not> truthy resp \<or> \<not> (case resp of JObj kvs \<Rightarrow> True | JArr xs \<Rightarrow> True | _ \<Rightarrow> False)
      then Inl InvalidResponseObject
      else
        case (case opt_prop (Some resp) ''output'' of
                None \<Rightarrow> Inr None
              | Some (JArr items) \<Rightarrow> find_message items
              | Some v \<Rightarrow> if truthy v then Inl TypeError else Inr None) of
          Inl e \<Rightarrow> Inl e
        | Inr outputMsg \<Rightarrow>
            (case (case opt_prop outputMsg ''content'' of
                     None \<Rightarrow> Inr []
                   | Some JNull \<Rightarrow> Inr []
                   | Some (JArr cs) \<Rightarrow> filter_output_text cs
                   | Some v \<Rightarrow> Inl TypeError) of
               Inl e \<Rightarrow> Inl e
             | Inr textBlocks \<Rightarrow>
                 (case join_texts num textBlocks of
                    Inl e \<Rightarrow> Inl e
                  | Inr content \<Rightarrow>
                  (case (case opt_prop (Some resp) ''id'' of
                          None \<Rightarrow> Inr (''chatcmpl-'' @ show_nat now)
                        | Some (JStr s) \<Rightarrow>
                            Inr (if s = [] then ''chatcmpl-'' @ show_nat now else replace_resp_prefix s)
                        | Some v \<Rightarrow> if truthy v then Inl TypeError else Inr (''chatcmpl-'' @ show_nat now)) of
                    Inl e \<Rightarrow> Inl e
                  | Inr ident \<Rightarrow>
                      Inr (JObj
                        [(''id'', JStr ident),
                         (''object'', JStr ''chat.completion''),
                         (''created'', or_else (opt_prop (Some resp) ''created_at'') (JNum (int (now div 1000)))),
                         (''model'', or_else (opt_prop (Some resp) ''model'') (JStr ''unknown-model'')),
                         (''choices'', JArr [JObj
                            [(''index'', JNum 0),
                             (''message'', JObj
                                [(''role'', or_else (opt_prop outputMsg ''role'') (JStr ''assistant'')),
                                 (''content'', JStr content)]),
                             (''finish_reason'',
                                if opt_prop (Some resp) ''status'' = Some (JStr ''completed'')
                                then JStr ''stop'' else JStr ''unknown'')]]),
                         (''usage'', JObj
                            [(''prompt_tokens'',
                                or_zero (opt_prop (opt_prop (Some resp) ''usage'') ''input_tokens'')),
                             (''completion_tokens'',
                                or_zero (opt_prop (opt_prop (Some resp) ''usage'') ''output_tokens'')),
                             (''total_tokens'',
                                or_zero (opt_prop (opt_prop (Some resp) ''usage'') ''total_tokens''))])])))))"

section \<open>\<^verbatim>\<open>routes.js\<close>: the handlers\<close>

text \<open>
  A handler is a function of the registry, the inbound request, the outcome of
  \<^verbatim>\<open>getApiKey\<close> and the outcome of \<^verbatim>\<open>fetch\<close> (each an exception or a result; unused when the
  handler returns before the call). It returns the calls it made to the two collaborators,
  in order, and the response it wrote. Logging, the choice of a proxy agent and the
  construction of the outbound headers (with the provider lookup that feeds it) are left
  out: they do not touch the body, the status or the order of the calls.
\<close>

record request =
  req_body :: json
  req_headers :: "string \<Rightarrow> string option"

text \<open>
  The upstream response as \<^verbatim>\<open>node-fetch\<close> presents it: the status, \<^verbatim>\<open>await response.text()\<close>,
  \<^verbatim>\<open>await response.json()\<close> (\<open>None\<close> when it throws) and the chunks \<^verbatim>\<open>response.body\<close> yields before
  it ends or fails.
\<close>

record upstream =
  up_status :: nat
  up_text :: string
  up_json :: "json option"
  up_chunks :: "string list"

datatype event =
    GetApiKey "string option"
  | Fetch string json

text \<open>
  \<open>Json c v\<close> is \<^verbatim>\<open>res.status(c).json(v)\<close>; \<open>Stream hs cs\<close> is the headers set and the chunks written
  before \<^verbatim>\<open>res.end()\<close>; \<open>InternalError err\<close> is the outermost \<^verbatim>\<open>catch\<close>: status 500 with
  \<^verbatim>\<open>{error: 'Internal server error', message: err.message}\<close>.
\<close>

datatype response =
    Json nat json
  | Stream "(string \<times> string) list" "string list"
  | InternalError error


text \<open>\<^verbatim>\<open>response.ok\<close>\<close>

definition response_ok :: "upstream \<Rightarrow> bool" where
  "response_ok r = (200 \<le> up_status r \<and> up_status r < 300)"

text \<open>The reply to a non-2xx upstream status, the same in the four handlers.\<close>

definition endpoint_error :: "upstream \<Rightarrow> response" where
  "endpoint_error r =
     Json (up_status r)
       (JObj [(''error'', JStr (''Endpoint returned '' @ show_nat (up_status r))),
              (''details'', JStr (up_text r))])"

definition model_required :: response where
  "model_required = Json 400 (JObj [(''error'', JStr ''model is required'')])"

text \<open>
  The two replies whose message prints the model id into a template literal. When the id
  cannot be printed the literal throws, inside the handler's \<^verbatim>\<open>try\<close>.
\<close>

definition model_not_found :: "env \<Rightarrow> json \<Rightarrow> response" where
  "model_not_found e modelId =
     (case to_str (numberToString e) modelId of
        Inl err \<Rightarrow> InternalError err
      | Inr shown \<Rightarrow> Json 404 (JObj [(''error'', JStr (''Model '' @ shown @ '' not found''))]))"

definition endpoint_not_found :: "string \<Rightarrow> response" where
  "endpoint_not_found t =
     Json 500 (JObj [(''error'', JStr (''Endpoint type '' @ t @ '' not found''))])"

definition api_key_unavailable :: response where
  "api_key_unavailable =
     Json 500 (JObj [(''error'', JStr ''API key not available''),
                     (''message'', JStr ''Failed to get or refresh API key. Please check server logs.'')])"

definition invalid_endpoint_type :: "env \<Rightarrow> string \<Rightarrow> string \<Rightarrow> json \<Rightarrow> string \<Rightarrow> response" where
  "invalid_endpoint_type e route wanted modelId t =
     (case to_str (numberToString e) modelId of
        Inl err \<Rightarrow> InternalError err
      | Inr shown \<Rightarrow>
          Json 400 (JObj [(''error'', JStr ''Invalid endpoint type''),
                          (''message'', JStr (route @ '' endpoint only supports '' @ wanted
                             @ '' type endpoints, current model '' @ shown @ '' is '' @ t @ '' type''))]))"

definition sse_headers :: "(string \<times> string) list" where
  "sse_headers =
     [(''Content-Type'', ''text/event-stream''),
      (''Cache-Control'', ''no-cache''),
      (''Connection'', ''keep-alive'')]"

text \<open>
  \<^verbatim>\<open>req.headers.authorization || clientAuthFromXApiKey\<close>, the
  argument of \<^verbatim>\<open>getApiKey\<close> in the three forwarding handlers (\<open>None\<close> is \<^verbatim>\<open>null\<close>).
\<close>

definition client_credential :: "(string \<Rightarrow> string option) \<Rightarrow> string option" where
  "client_credential hs =
     (let clientAuthFromXApiKey =
            (case hs ''x-api-key'' of
               None \<Rightarrow> None
             | Some k \<Rightarrow> if k = [] then None else Some (''Bearer '' @ k))
      in case hs ''authorization'' of
           None \<Rightarrow> clientAuthFromXApiKey
         | Some a \<Rightarrow> if a = [] then clientAuthFromXApiKey else Some a)"

text \<open>What \<^verbatim>\<open>POST /v1/chat/completions\<close> writes once the upstream has answered with a 2xx.\<close>

definition chat_relay :: "env \<Rightarrow> model \<Rightarrow> json \<Rightarrow> json \<Rightarrow> upstream \<Rightarrow> response" where
  "chat_relay e model modelId transformedRequest response =
     (case get_prop transformedRequest ''stream'' of
        Inl err \<Rightarrow> InternalError err
      | Inr s \<Rightarrow>
          if s = Some (JBool True) then
            Stream sse_headers
              (if model_type model = ''common'' then up_chunks response
               else if model_type model = ''anthropic''
               then anthropicTransformStream e modelId (''chatcmpl-'' @ show_nat (date_now e)) (up_chunks response)
               else openaiTransformStream e modelId (''chatcmpl-'' @ show_nat (date_now e)) (up_chunks response))
          else
            (case up_json response of
               None \<Rightarrow> InternalError SyntaxError
             | Some data \<Rightarrow>
                 if model_type model = ''openai'' then
                   (case convertResponseToChatCompletion (numberToString e) (date_now e) data of
                      Inl err \<Rightarrow> Json 200 data
                    | Inr converted \<Rightarrow> Json 200 converted)
                 else Json 200 data))"

definition handleChatCompletions ::
  "env \<Rightarrow> request \<Rightarrow> error + string \<Rightarrow> error + upstream \<Rightarrow> event list \<times> response" where
  "handleChatCompletions e req apiKey fetched =
     (let openaiRequest = req_body req in
      case get_prop openaiRequest ''model'' of
        Inl err \<Rightarrow> ([], InternalError err)
      | Inr requested \<Rightarrow>
      (case getRedirectedModelId e requested of
        None \<Rightarrow> ([], model_required)
      | Some modelId \<Rightarrow>
      if \<not> truthy modelId then ([], model_required)
      else
      (case getModelById e modelId of
        None \<Rightarrow> ([], model_not_found e modelId)
      | Some model \<Rightarrow>
      (case getEndpointByType e (model_type model) of
        None \<Rightarrow> ([], endpoint_not_found (model_type model))
      | Some endpoint \<Rightarrow>
      (let asked = [GetApiKey (req_headers req ''authorization'')] in
       case apiKey of
        Inl err \<Rightarrow> (asked, api_key_unavailable)
      | Inr authHeader \<Rightarrow>
      (let requestWithRedirectedModel = AList.update ''model'' modelId (spread openaiRequest) in
       if model_type model \<notin> set [''anthropic'', ''openai'', ''common'']
       then (asked, Json 500 (JObj [(''error'', JStr (''Unknown endpoint type: '' @ model_type model))]))
       else
       case (if model_type model = ''anthropic'' then transformToAnthropic e requestWithRedirectedModel
             else if model_type model = ''openai'' then transformToOpenAI e requestWithRedirectedModel
             else (case transformToCommon e requestWithRedirectedModel of
                     Inl err \<Rightarrow> Inl err
                   | Inr r \<Rightarrow> Inr (JObj r))) of
        Inl err \<Rightarrow> (asked, InternalError err)
      | Inr transformedRequest \<Rightarrow>
      (let calls = asked @ [Fetch (base_url endpoint) transformedRequest] in
       case fetched of
        Inl err \<Rightarrow> (calls, InternalError err)
      | Inr response \<Rightarrow>
          if \<not> response_ok response then (calls, endpoint_error response)
          else (calls, chat_relay e model modelId transformedRequest response))))))))"

text \<open>
  What the two forwarding handlers write once the upstream has answered with a 2xx:
  the chunks as they came, or the parsed body.
\<close>

definition direct_relay :: "bool \<Rightarrow> upstream \<Rightarrow> response" where
  "direct_relay isStreaming response =
     (if isStreaming then Stream sse_headers (up_chunks response)
      else (case up_json response of
              None \<Rightarrow> InternalError SyntaxError
            | Some data \<Rightarrow> Json 200 data))"

text \<open>
  The body \<^verbatim>\<open>POST /v1/responses\<close> sends upstream (\<^verbatim>\<open>modifiedRequest\<close>). \<^verbatim>\<open>systemPrompt + instructions\<close>
  prints the client's instructions into a string, which can throw.
\<close>

definition responses_modifiedRequest :: "env \<Rightarrow> json \<Rightarrow> json \<Rightarrow> error + obj" where
  "responses_modifiedRequest e openaiRequest modelId =
     (let modifiedRequest = AList.update ''model'' modelId (spread openaiRequest) in
      case (case configured_prompt e of
              None \<Rightarrow> Inr modifiedRequest
            | Some systemPrompt \<Rightarrow>
                (case map_of modifiedRequest ''instructions'' of
                   None \<Rightarrow> Inr (AList.update ''instructions'' (JStr systemPrompt) modifiedRequest)
                 | Some i \<Rightarrow>
                     if truthy i
                     then (case to_str (numberToString e) i of
                             Inl err \<Rightarrow> Inl err
                           | Inr shown \<Rightarrow>
                               Inr (AList.update ''instructions'' (JStr (systemPrompt @ shown)) modifiedRequest))
                     else Inr (AList.update ''instructions'' (JStr systemPrompt) modifiedRequest))) of
        Inl err \<Rightarrow> Inl err
      | Inr modifiedRequest \<Rightarrow>
          (case getModelReasoning e (Some modelId) of
             None \<Rightarrow> Inr (AList.delete ''reasoning'' modifiedRequest)
           | Some reasoningLevel \<Rightarrow>
               if reasoningLevel = ''auto'' then Inr modifiedRequest
               else if reasoningLevel \<noteq> [] \<and> reasoningLevel \<in> set [''low'', ''medium'', ''high'']
               then Inr (AList.update ''reasoning''
                      (JObj [(''effort'', JStr reasoningLevel), (''summary'', JStr ''auto'')]) modifiedRequest)
               else Inr (AList.delete ''reasoning'' modifiedRequest)))"

definition handleDirectResponses ::
  "env \<Rightarrow> request \<Rightarrow> error + string \<Rightarrow> error + upstream \<Rightarrow> event list \<times> response" where
  "handleDirectResponses e req apiKey fetched =
     (let openaiRequest = req_body req in
      case get_prop openaiRequest ''model'' of
        Inl err \<Rightarrow> ([], InternalError err)
      | Inr requested \<Rightarrow>
      (case getRedirectedModelId e requested of
        None \<Rightarrow> ([], model_required)
      | Some modelId \<Rightarrow>
      if \<not> truthy modelId then ([], model_required)
      else
      (case getModelById e modelId of
        None \<Rightarrow> ([], model_not_found e modelId)
      | Some model \<Rightarrow>
      if model_type model \<noteq> ''openai''
      then ([], invalid_endpoint_type e ''/v1/responses'' ''openai'' modelId (model_type model))
      else
      (case getEndpointByType e (model_type model) of
        None \<Rightarrow> ([], endpoint_not_found (model_type model))
      | Some endpoint \<Rightarrow>
      (let asked = [GetApiKey (client_credential (req_headers req))] in
       case apiKey of
        Inl err \<Rightarrow> (asked, api_key_unavailable)
      | Inr authHeader \<Rightarrow>
      (case responses_modifiedRequest e openaiRequest modelId of
        Inl err \<Rightarrow> (asked, InternalError err)
      | Inr modifiedRequest \<Rightarrow>
      (let calls = asked @ [Fetch (base_url endpoint) (JObj modifiedRequest)] in
       case fetched of
        Inl err \<Rightarrow> (calls, InternalError err)
      | Inr response \<Rightarrow>
          if \<not> response_ok response then (calls, endpoint_error response)
          else (calls, direct_relay (opt_prop (Some openaiRequest) ''stream'' = Some (JBool True)) response))))))))"

text \<open>The body \<^verbatim>\<open>POST /v1/messages\<close> sends upstream (\<^verbatim>\<open>modifiedRequest\<close>).\<close>

text \<open>
  The table \<^verbatim>\<open>budgetTokens\<close>. A key outside it reads as \<^verbatim>\<open>undefined\<close>, and a property whose
  value is \<^verbatim>\<open>undefined\<close> is not serialised.
\<close>

definition budgetTokens :: "(string \<times> int) list" where
  "budgetTokens = [(''low'', 4096), (''medium'', 12288), (''high'', 24576)]"

definition messages_modifiedRequest :: "env \<Rightarrow> json \<Rightarrow> json \<Rightarrow> obj" where
  "messages_modifiedRequest e anthropicRequest modelId =
     (let modifiedRequest = AList.update ''model'' modelId (spread anthropicRequest);
          modifiedRequest =
            (case configured_prompt e of
               None \<Rightarrow> modifiedRequest
             | Some systemPrompt \<Rightarrow>
                 (case map_of modifiedRequest ''system'' of
                    Some (JArr blocks) \<Rightarrow>
                      AList.update ''system''
                        (JArr (JObj [(''type'', JStr ''text''), (''text'', JStr systemPrompt)] # blocks))
                        modifiedRequest
                  | _ \<Rightarrow>
                      AList.update ''system''
                        (JArr [JObj [(''type'', JStr ''text''), (''text'', JStr systemPrompt)]])
                        modifiedRequest))
      in case getModelReasoning e (Some modelId) of
           None \<Rightarrow> AList.delete ''thinking'' modifiedRequest
         | Some reasoningLevel \<Rightarrow>
             if reasoningLevel = ''auto'' then modifiedRequest
             else if reasoningLevel \<noteq> [] \<and> reasoningLevel \<in> set [''low'', ''medium'', ''high'']
             then AList.update ''thinking''
                    (JObj ((''type'', JStr ''enabled'') #
                           (case map_of budgetTokens reasoningLevel of
                              None \<Rightarrow> []
                            | Some n \<Rightarrow> [(''budget_tokens'', JNum n)]))) modifiedRequest
             else AList.delete ''thinking'' modifiedRequest)"

definition handleDirectMessages ::
  "env \<Rightarrow> request \<Rightarrow> error + string \<Rightarrow> error + upstream \<Rightarrow> event list \<times> response" where
  "handleDirectMessages e req apiKey fetched =
     (let anthropicRequest = req_body req in
      case get_prop anthropicRequest ''model'' of
        Inl err \<Rightarrow> ([], InternalError err)
      | Inr requested \<Rightarrow>
      (case getRedirectedModelId e requested of
        None \<Rightarrow> ([], model_required)
      | Some modelId \<Rightarrow>
      if \<not> truthy modelId then ([], model_required)
      else
      (case getModelById e modelId of
        None \<Rightarrow> ([], model_not_found e modelId)
      | Some model \<Rightarrow>
      if model_type model \<noteq> ''anthropic''
      then ([], invalid_endpoint_type e ''/v1/messages'' ''anthropic'' modelId (model_type model))
      else
      (case getEndpointByType e (model_type model) of
        None \<Rightarrow> ([], endpoint_not_found (model_type model))
      | Some endpoint \<Rightarrow>
      (let asked = [GetApiKey (client_credential (req_headers req))] in
       case apiKey of
        Inl err \<Rightarrow> (asked, api_key_unavailable)
      | Inr authHeader \<Rightarrow>
      (let isStreaming = (opt_prop (Some anthropicRequest) ''stream'' = Some (JBool True));
           modifiedRequest = messages_modifiedRequest e anthropicRequest modelId;
           calls = asked @ [Fetch (base_url endpoint) (JObj modifiedRequest)] in
       case fetched of
        Inl err \<Rightarrow> (calls, InternalError err)
      | Inr response \<Rightarrow>
          if \<not> response_ok response then (calls, endpoint_error response)
          else (calls, direct_relay isStreaming response)))))))"

text \<open>\<^verbatim>\<open>s.replace(pat, rep)\<close> with a string pattern: the first occurrence only.\<close>

fun replace_first :: "string \<Rightarrow> string \<Rightarrow> string \<Rightarrow> string" where
  "replace_first pat rep [] = (if pat = [] then rep else [])"
| "replace_first pat rep (c # cs) =
     (if take (length pat) (c # cs) = pat then rep @ drop (length pat) (c # cs)
      else c # replace_first pat rep cs)"

definition handleCountTokens ::
  "env \<Rightarrow> request \<Rightarrow> error + string \<Rightarrow> error + upstream \<Rightarrow> event list \<times> response" where
  "handleCountTokens e req apiKey fetched =
     (let anthropicRequest = req_body req in
      case get_prop anthropicRequest ''model'' of
        Inl err \<Rightarrow> ([], InternalError err)
      | Inr requested \<Rightarrow>
      (case getRedirectedModelId e requested of
        None \<Rightarrow> ([], model_required)
      | Some modelId \<Rightarrow>
      if \<not> truthy modelId then ([], model_required)
      else
      (case getModelById e modelId of
        None \<Rightarrow> ([], model_not_found e modelId)
      | Some model \<Rightarrow>
      if model_type model \<noteq> ''anthropic''
      then ([], invalid_endpoint_type e ''/v1/messages/count_tokens'' ''anthropic'' modelId (model_type model))
      else
      (case getEndpointByType e ''anthropic'' of
        None \<Rightarrow> ([], endpoint_not_found ''anthropic'')
      | Some endpoint \<Rightarrow>
      (let asked = [GetApiKey (client_credential (req_headers req))] in
       case apiKey of
        Inl err \<Rightarrow> (asked, api_key_unavailable)
      | Inr authHeader \<Rightarrow>
      (let countTokensUrl = replace_first ''/v1/messages'' ''/v1/messages/count_tokens'' (base_url endpoint);
           modifiedRequest = AList.update ''model'' modelId (spread anthropicRequest);
           calls = asked @ [Fetch countTokensUrl (JObj modifiedRequest)] in
       case fetched of
        Inl err \<Rightarrow> (calls, InternalError err)
      | Inr response \<Rightarrow>
          if \<not> response_ok response then (calls, endpoint_error response)
          else (case up_json response of
                  None \<Rightarrow> (calls, InternalError SyntaxError)
                | Some data \<Rightarrow> (calls, Json 200 data))))))))"

section \<open>Vocabulary of the properties\<close>

text \<open>
  The model id a request resolves to (\<^verbatim>\<open>getRedirectedModelId(req.body.model)\<close>), the type of
  the model configured under it, and the reasoning level configured for it.
\<close>

definition resolved_model_id :: "env \<Rightarrow> request \<Rightarrow> json option" where
  "resolved_model_id e req =
     (case get_prop (req_body req) ''model'' of
        Inl err \<Rightarrow> None
      | Inr requested \<Rightarrow> getRedirectedModelId e requested)"

definition resolved_type :: "env \<Rightarrow> request \<Rightarrow> string option" where
  "resolved_type e req =
     (case resolved_model_id e req of
        None \<Rightarrow> None
      | Some modelId \<Rightarrow> map_option model_type (getModelById e modelId))"

definition reasoning_level :: "env \<Rightarrow> request \<Rightarrow> string option" where
  "reasoning_level e req = getModelReasoning e (resolved_model_id e req)"

text \<open>Off, or any level outside auto, low, medium and high.\<close>

definition level_off :: "string option \<Rightarrow> bool" where
  "level_off l =
     (case l of None \<Rightarrow> True | Some s \<Rightarrow> s \<notin> set [''auto'', ''low'', ''medium'', ''high''])"

text \<open>The body of the upstream call a handler made, and the credential it asked for.\<close>

fun first_fetch :: "event list \<Rightarrow> json option" where
  "first_fetch [] = None"
| "first_fetch (Fetch u b # evs) = Some b"
| "first_fetch (GetApiKey c # evs) = first_fetch evs"

fun first_asked :: "event list \<Rightarrow> string option option" where
  "first_asked [] = None"
| "first_asked (GetApiKey c # evs) = Some c"
| "first_asked (Fetch u b # evs) = first_asked evs"

definition sent_body :: "event list \<times> response \<Rightarrow> json option" where
  "sent_body out = first_fetch (fst out)"

definition asked_credential :: "event list \<times> response \<Rightarrow> string option option" where
  "asked_credential out = first_asked (fst out)"

text \<open>A field of a body: \<open>None\<close> when the body has no such field.\<close>

definition body_field :: "json \<Rightarrow> string \<Rightarrow> json option" where
  "body_field b k = opt_prop (Some b) k"

definition has_role_system :: "json \<Rightarrow> bool" where
  "has_role_system m = (body_field m ''role'' = Some (JStr ''system''))"

subsection \<open>The non-streaming adapter, in the words of its description\<close>

text \<open>
  A well-formed upstream body is an object whose \<^verbatim>\<open>output\<close> is an array of objects, where every
  item of type \<^verbatim>\<open>message\<close> has an array of objects as \<^verbatim>\<open>content\<close> and every part of type
  \<^verbatim>\<open>output_text\<close> has a string as \<^verbatim>\<open>text\<close>, and whose \<^verbatim>\<open>id\<close>, when present, is a string.
  \<open>first_message_item\<close>, \<open>message_text\<close> and \<open>usage_counter\<close> say what the adapter is described
  to extract: the first message-typed output item, the texts of its text-typed parts
  concatenated in order, and a usage counter with zero for a missing one.
\<close>

definition is_obj :: "json \<Rightarrow> bool" where
  "is_obj j = (case j of JObj kvs \<Rightarrow> True | _ \<Rightarrow> False)"

definition is_message :: "json \<Rightarrow> bool" where
  "is_message item = (body_field item ''type'' = Some (JStr ''message''))"

definition is_output_text :: "json \<Rightarrow> bool" where
  "is_output_text c = (body_field c ''type'' = Some (JStr ''output_text''))"

definition wf_part :: "json \<Rightarrow> bool" where
  "wf_part c = (is_obj c \<and>
     (if is_output_text c
      then (case body_field c ''text'' of Some (JStr t) \<Rightarrow> True | _ \<Rightarrow> False)
      else True))"

definition wf_item :: "json \<Rightarrow> bool" where
  "wf_item item = (is_obj item \<and>
     (if is_message item
      then (case body_field item ''content'' of Some (JArr parts) \<Rightarrow> list_all wf_part parts | _ \<Rightarrow> False)
      else True))"

definition well_formed_upstream :: "json \<Rightarrow> bool" where
  "well_formed_upstream resp = (is_obj resp
     \<and> (case body_field resp ''output'' of Some (JArr items) \<Rightarrow> list_all wf_item items | _ \<Rightarrow> False)
     \<and> (case body_field resp ''id'' of None \<Rightarrow> True | Some (JStr s) \<Rightarrow> True | _ \<Rightarrow> False))"

definition first_message_item :: "json \<Rightarrow> json option" where
  "first_message_item resp =
     (case body_field resp ''output'' of
        Some (JArr items) \<Rightarrow> List.find is_message items
      | _ \<Rightarrow> None)"

definition part_text :: "json \<Rightarrow> string" where
  "part_text c = (case body_field c ''text'' of Some (JStr t) \<Rightarrow> t | _ \<Rightarrow> [])"

definition message_text :: "json \<Rightarrow> string" where
  "message_text resp =
     (case first_message_item resp of
        None \<Rightarrow> []
      | Some msg \<Rightarrow>
          (case body_field msg ''content'' of
             Some (JArr parts) \<Rightarrow> concat (map part_text (filter is_output_text parts))
           | _ \<Rightarrow> []))"

definition usage_counter :: "json \<Rightarrow> string \<Rightarrow> json" where
  "usage_counter resp k =
     (case opt_prop (body_field resp ''usage'') k of
        None \<Rightarrow> JNum 0
      | Some JNull \<Rightarrow> JNum 0
      | Some n \<Rightarrow> n)"

subsection \<open>A registry and requests to evaluate the handlers on\<close>

text \<open>
  Three configured models, one of each type, with the reasoning level and the system prompt
  as parameters, and a redirect from \<^verbatim>\<open>alias\<close> to \<^verbatim>\<open>ghost\<close>, which is not configured. The two
  transformers that are not at hand copy the request.
\<close>

definition ex_env :: "string option \<Rightarrow> string option \<Rightarrow> env" where
  "ex_env level systemPrompt =
     \<lparr> getSystemPrompt = systemPrompt,
       getModelReasoning = (\<lambda>m. level),
       getRedirectedModelId = (\<lambda>m. if m = Some (JStr ''alias'') then Some (JStr ''ghost'') else m),
       getModelById = (\<lambda>m.
          if m = JStr ''claude-opus-4-1-20250805'' then Some \<lparr> model_type = ''anthropic'' \<rparr>
          else if m = JStr ''gpt-5-2025-08-07'' then Some \<lparr> model_type = ''openai'' \<rparr>
          else if m = JStr ''glm-4.6'' then Some \<lparr> model_type = ''common'' \<rparr>
          else None),
       getEndpointByType = (\<lambda>t. Some \<lparr> base_url = ''https://up.example/'' @ t \<rparr>),
       transformToAnthropic = (\<lambda>r. Inr (JObj r)),
       transformToOpenAI = (\<lambda>r. Inr (JObj r)),
       anthropicTransformStream = (\<lambda>m i cs. cs),
       openaiTransformStream = (\<lambda>m i cs. cs),
       date_now = 1700000000000,
       numberToString = show_int \<rparr>"

definition ex_req :: "obj \<Rightarrow> request" where
  "ex_req kvs = \<lparr> req_body = JObj kvs, req_headers = (\<lambda>h. None) \<rparr>"

definition ex_up :: "nat \<Rightarrow> string \<Rightarrow> json option \<Rightarrow> upstream" where
  "ex_up c t j = \<lparr> up_status = c, up_text = t, up_json = j, up_chunks = [''data: x''] \<rparr>"

text \<open>A request to each of the three routes, each carrying reasoning fields of its own.\<close>

definition ex_chat_body :: obj where
  "ex_chat_body =
     [(''model'', JStr ''glm-4.6''),
      (''messages'', JArr [JObj [(''role'', JStr ''user''), (''content'', JStr ''Hello'')]]),
      (''reasoning_effort'', JStr ''minimal''),
      (''thinking'', JObj [(''type'', JStr ''enabled'')])]"

definition ex_messages_body :: obj where
  "ex_messages_body =
     [(''model'', JStr ''claude-opus-4-1-20250805''),
      (''max_tokens'', JNum 1024),
      (''thinking'', JObj [(''type'', JStr ''enabled''), (''budget_tokens'', JNum 8192)]),
      (''messages'', JArr [JObj [(''role'', JStr ''user''), (''content'', JStr ''Hello'')]])]"

definition ex_responses_body :: obj where
  "ex_responses_body =
     [(''model'', JStr ''gpt-5-2025-08-07''),
      (''input'', JStr ''Hello''),
      (''reasoning'', JObj [(''effort'', JStr ''minimal'')])]"

text \<open>Requests that carry system content of their own, in the shapes the three routes know.\<close>

definition ex_chat_system_body :: obj where
  "ex_chat_system_body =
     [(''model'', JStr ''glm-4.6''),
      (''messages'', JArr
         [JObj [(''role'', JStr ''user''), (''content'', JStr ''Hello'')],
          JObj [(''role'', JStr ''system''), (''content'', JStr ''Be brief.'')],
          JObj [(''role'', JStr ''system''), (''content'', JStr ''Be kind.'')]])]"

definition ex_chat_parts_body :: obj where
  "ex_chat_parts_body =
     [(''model'', JStr ''glm-4.6''),
      (''messages'', JArr
         [JObj [(''role'', JStr ''system''),
                (''content'', JArr [JObj [(''type'', JStr ''text''), (''text'', JStr ''Be brief.'')]])],
          JObj [(''role'', JStr ''user''), (''content'', JStr ''Hello'')]])]"

definition ex_messages_blocks_body :: obj where
  "ex_messages_blocks_body =
     [(''model'', JStr ''claude-opus-4-1-20250805''),
      (''system'', JArr [JObj [(''type'', JStr ''text''), (''text'', JStr ''Be brief.'')]]),
      (''messages'', JArr [JObj [(''role'', JStr ''user''), (''content'', JStr ''Hello'')]])]"

definition ex_messages_string_body :: obj where
  "ex_messages_string_body =
     [(''model'', JStr ''claude-opus-4-1-20250805''),
      (''system'', JStr ''Be brief.''),
      (''messages'', JArr [JObj [(''role'', JStr ''user''), (''content'', JStr ''Hello'')]])]"

definition ex_responses_instructions_body :: obj where
  "ex_responses_instructions_body =
     [(''model'', JStr ''gpt-5-2025-08-07''),
      (''instructions'', JStr ''Be brief.''),
      (''input'', JStr ''Hello'')]"

text \<open>Two upstream bodies of \<^verbatim>\<open>/v1/responses\<close>: a completed one, and one with nothing in it.\<close>

definition ex_response_body :: json where
  "ex_response_body = JObj
     [(''id'', JStr ''resp_abc123''),
      (''status'', JStr ''completed''),
      (''model'', JStr ''gpt-5-2025-08-07''),
      (''output'', JArr
         [JObj [(''type'', JStr ''reasoning''), (''summary'', JArr [])],
          JObj [(''type'', JStr ''message''), (''role'', JStr ''assistant''),
                (''content'', JArr
                   [JObj [(''type'', JStr ''output_text''), (''text'', JStr ''Hel'')],
                    JObj [(''type'', JStr ''refusal''), (''refusal'', JStr ''no'')],
                    JObj [(''type'', JStr ''output_text''), (''text'', JStr ''lo'')]])],
          JObj [(''type'', JStr ''message''), (''role'', JStr ''assistant''),
                (''content'', JArr [JObj [(''type'', JStr ''output_text''), (''text'', JStr ''again'')]])]]),
      (''usage'', JObj [(''input_tokens'', JNum 3), (''output_tokens'', JNum 5)])]"

definition ex_empty_response_body :: json where
  "ex_empty_response_body = JObj [(''status'', JStr ''incomplete''), (''output'', JArr [])]"

text \<open>
  A request with an \<^verbatim>\<open>x-api-key\<close> header and no \<^verbatim>\<open>authorization\<close> header, a request with both
  headers, a chat request to the OpenAI-type model, and a token-count request that asks for
  a stream.
\<close>

definition ex_keyed_req :: "obj \<Rightarrow> request" where
  "ex_keyed_req kvs =
     \<lparr> req_body = JObj kvs,
       req_headers = (\<lambda>h. if h = ''x-api-key'' then Some ''sk-ant-123'' else None) \<rparr>"

definition ex_both_req :: "obj \<Rightarrow> request" where
  "ex_both_req kvs =
     \<lparr> req_body = JObj kvs,
       req_headers = (\<lambda>h. if h = ''authorization'' then Some ''Bearer client-token''
                          else if h = ''x-api-key'' then Some ''sk-ant-123'' else None) \<rparr>"

definition ex_chat_openai_body :: obj where
  "ex_chat_openai_body =
     [(''model'', JStr ''gpt-5-2025-08-07''),
      (''messages'', JArr [JObj [(''role'', JStr ''user''), (''content'', JStr ''Hello'')]]),
      (''stream'', JBool False)]"

definition ex_count_body :: obj where
  "ex_count_body =
     [(''model'', JStr ''claude-opus-4-1-20250805''),
      (''messages'', JArr [JObj [(''role'', JStr ''user''), (''content'', JStr ''Hello'')]]),
      (''stream'', JBool True)]"

definition ex_ok :: "error + upstream" where
  "ex_ok = Inr (ex_up 200 ''{}'' (Some (JObj [])))"

section \<open>Properties\<close>


subsection \<open>Auxiliary facts\<close>

lemma digit_in: "d < 10 \<Longrightarrow> digit d \<in> set ''0123456789''"
  unfolding digit_def by (rule nth_mem) simp

lemma show_nat_digits: "set (show_nat n) \<subseteq> set ''0123456789''"
proof (induction n rule: show_nat.induct)
  case (1 n)
  show ?case
  proof (cases "n < 10")
    case True
    then show ?thesis using digit_in[of n] by (subst show_nat.simps) simp
  next
    case False
    have "n mod 10 < 10" by simp
    then have "digit (n mod 10) \<in> set ''0123456789''" by (rule digit_in)
    with False 1 show ?thesis by (subst show_nat.simps) simp
  qed
qed

lemma not_index_key:
  assumes "c \<in> set k" and "c \<notin> set ''0123456789''"
  shows "k \<notin> set (map show_nat ns)"
  using assms show_nat_digits by auto

text \<open>A key that is not a number names the same field of a body and of its copy.\<close>

lemma spread_field:
  assumes "c \<in> set k" and "c \<notin> set ''0123456789''"
  shows "map_of (spread b) k = body_field b k"
proof (cases b)
  case (JArr xs)
  have "k \<notin> set (map show_nat [0..<length xs])" using assms by (rule not_index_key)
  then have "map_of (zip (map show_nat [0..<length xs]) xs) k = None"
    by (subst map_of_zip_is_None) simp_all
  with JArr show ?thesis by (simp add: spread_def body_field_def opt_prop_def)
next
  case (JStr s)
  have "k \<notin> set (map show_nat [0..<length s])" using assms by (rule not_index_key)
  then have "map_of (zip (map show_nat [0..<length s]) (map (\<lambda>c. JStr [c]) s)) k = None"
    by (subst map_of_zip_is_None) simp_all
  with JStr show ?thesis by (simp add: spread_def body_field_def opt_prop_def)
qed (simp_all add: spread_def body_field_def opt_prop_def)

text \<open>What a handler sent upstream, when it sent anything.\<close>

lemma messages_sent:
  assumes "sent_body (handleDirectMessages e req key up) = Some b"
  shows "\<exists>modelId. resolved_model_id e req = Some modelId \<and> truthy modelId
           \<and> resolved_type e req = Some ''anthropic''
           \<and> b = JObj (messages_modifiedRequest e (req_body req) modelId)"
  using assms
  by (auto simp: sent_body_def handleDirectMessages_def resolved_model_id_def resolved_type_def Let_def
      split: sum.splits option.splits if_splits)

lemma responses_sent:
  assumes "sent_body (handleDirectResponses e req key up) = Some b"
  shows "\<exists>modelId r. resolved_model_id e req = Some modelId \<and> truthy modelId
           \<and> resolved_type e req = Some ''openai''
           \<and> responses_modifiedRequest e (req_body req) modelId = Inr r
           \<and> b = JObj r"
  using assms
  by (auto simp: sent_body_def handleDirectResponses_def resolved_model_id_def resolved_type_def Let_def
      split: sum.splits option.splits if_splits)

lemma chat_sent_common:
  assumes "sent_body (handleChatCompletions e req key up) = Some b"
    and "resolved_type e req = Some ''common''"
  shows "\<exists>modelId r. resolved_model_id e req = Some modelId \<and> truthy modelId
           \<and> transformToCommon e (AList.update ''model'' modelId (spread (req_body req))) = Inr r
           \<and> b = JObj r"
  using assms
  by (auto simp: sent_body_def handleChatCompletions_def resolved_model_id_def resolved_type_def Let_def
      split: sum.splits option.splits if_splits)

text \<open>
  The two phases of \<open>transformToCommon\<close>: the messages are replaced or left alone, then the
  reasoning level decides about \<^verbatim>\<open>reasoning_effort\<close>.
\<close>

lemma prepend_system_prompt_shape:
  assumes "prepend_system_prompt p r = Inr mid"
  shows "\<exists>v. mid = AList.update ''messages'' (JArr v) r"
  using assms unfolding prepend_system_prompt_def Let_def
  by (auto split: option.splits json.splits sum.splits if_splits)

lemma transformToCommon_phases:
  assumes "transformToCommon e r = Inr out"
  shows "\<exists>mid. (case configured_prompt e of None \<Rightarrow> mid = r | Some p \<Rightarrow> prepend_system_prompt p r = Inr mid)
      \<and> out = (case getModelReasoning e (map_of r ''model'') of
                  None \<Rightarrow> AList.delete ''reasoning_effort'' mid
                | Some l \<Rightarrow> if l = ''auto'' then mid
                            else if l \<in> set [''low'', ''medium'', ''high'']
                            then AList.update ''reasoning_effort'' (JStr l) mid
                            else AList.delete ''reasoning_effort'' mid)"
  using assms unfolding transformToCommon_def Let_def
  by (auto split: option.splits sum.splits if_splits)

lemma transformToCommon_shape:
  assumes "transformToCommon e r = Inr out"
  shows "\<exists>mid. (mid = r \<or> (\<exists>v. configured_prompt e \<noteq> None \<and> mid = AList.update ''messages'' (JArr v) r))
      \<and> out = (case getModelReasoning e (map_of r ''model'') of
                  None \<Rightarrow> AList.delete ''reasoning_effort'' mid
                | Some l \<Rightarrow> if l = ''auto'' then mid
                            else if l \<in> set [''low'', ''medium'', ''high'']
                            then AList.update ''reasoning_effort'' (JStr l) mid
                            else AList.delete ''reasoning_effort'' mid)"
proof -
  from transformToCommon_phases[OF assms] obtain mid where
    mid: "case configured_prompt e of None \<Rightarrow> mid = r | Some p \<Rightarrow> prepend_system_prompt p r = Inr mid"
    and out: "out = (case getModelReasoning e (map_of r ''model'') of
                  None \<Rightarrow> AList.delete ''reasoning_effort'' mid
                | Some l \<Rightarrow> if l = ''auto'' then mid
                            else if l \<in> set [''low'', ''medium'', ''high'']
                            then AList.update ''reasoning_effort'' (JStr l) mid
                            else AList.delete ''reasoning_effort'' mid)"
    by blast
  have "mid = r \<or> (\<exists>v. configured_prompt e \<noteq> None \<and> mid = AList.update ''messages'' (JArr v) r)"
    using mid by (auto split: option.splits dest: prepend_system_prompt_shape)
  with out show ?thesis by blast
qed

lemma model_after_redirect:
  "map_of (AList.update ''model'' modelId kvs) ''model'' = Some modelId"
  by (simp add: update_conv')

subsection \<open>Reasoning level off\<close>

lemma messages_body_off:
  assumes "level_off (getModelReasoning e (Some modelId))"
  shows "map_of (messages_modifiedRequest e body modelId) ''thinking'' = None"
  using assms
  by (auto simp: messages_modifiedRequest_def level_off_def Let_def delete_conv'
      split: option.splits)

lemma responses_body_off:
  assumes "level_off (getModelReasoning e (Some modelId))"
    and "responses_modifiedRequest e body modelId = Inr r"
  shows "map_of r ''reasoning'' = None"
  using assms
  by (auto simp: responses_modifiedRequest_def level_off_def Let_def delete_conv'
      split: option.splits sum.splits if_splits)

lemma common_body_off:
  assumes "level_off (getModelReasoning e (map_of r ''model''))"
    and "transformToCommon e r = Inr out"
  shows "map_of out ''reasoning_effort'' = None"
  using transformToCommon_shape[OF assms(2)] assms(1)
  by (auto simp: level_off_def delete_conv' split: option.splits)

lemmas ex_defs = ex_env_def ex_req_def ex_up_def ex_ok_def ex_chat_body_def ex_messages_body_def
  ex_responses_body_def ex_chat_system_body_def ex_chat_parts_body_def ex_messages_blocks_body_def
  ex_messages_string_body_def ex_responses_instructions_body_def ex_keyed_req_def ex_both_req_def
  ex_chat_openai_body_def ex_count_body_def sent_body_def resolved_model_id_def resolved_type_def reasoning_level_def
  level_off_def configured_prompt_def spread_def response_ok_def Let_def

text \<open>
  C1, as the code has it. For a model whose reasoning level is off (or any level outside
  auto, low, medium and high), each path removes the field of its own family from the body
  it sends upstream, whatever the client sent: the common transformer removes
  \<^verbatim>\<open>reasoning_effort\<close>, the \<^verbatim>\<open>/v1/messages\<close> handler removes \<^verbatim>\<open>thinking\<close>, and the \<^verbatim>\<open>/v1/responses\<close>
  handler removes \<^verbatim>\<open>reasoning\<close>.
\<close>

theorem off_removes_own_field:
  assumes "level_off (reasoning_level e req)"
  shows "(sent_body (handleChatCompletions e req key up) = Some b1 \<and> resolved_type e req = Some ''common''
            \<longrightarrow> (\<exists>kvs. b1 = JObj kvs \<and> map_of kvs ''reasoning_effort'' = None))
       \<and> (sent_body (handleDirectMessages e req key up) = Some b2
            \<longrightarrow> (\<exists>kvs. b2 = JObj kvs \<and> map_of kvs ''thinking'' = None))
       \<and> (sent_body (handleDirectResponses e req key up) = Some b3
            \<longrightarrow> (\<exists>kvs. b3 = JObj kvs \<and> map_of kvs ''reasoning'' = None))"
proof (intro conjI impI)
  assume "sent_body (handleChatCompletions e req key up) = Some b1 \<and> resolved_type e req = Some ''common''"
  then obtain modelId r where m: "resolved_model_id e req = Some modelId"
    and r: "transformToCommon e (AList.update ''model'' modelId (spread (req_body req))) = Inr r"
    and b: "b1 = JObj r"
    using chat_sent_common by blast
  have "level_off (getModelReasoning e (map_of (AList.update ''model'' modelId (spread (req_body req))) ''model''))"
    using assms m by (simp add: reasoning_level_def model_after_redirect)
  then have "map_of r ''reasoning_effort'' = None" using r by (rule common_body_off)
  with b show "\<exists>kvs. b1 = JObj kvs \<and> map_of kvs ''reasoning_effort'' = None" by blast
next
  assume "sent_body (handleDirectMessages e req key up) = Some b2"
  then obtain modelId where m: "resolved_model_id e req = Some modelId"
    and b: "b2 = JObj (messages_modifiedRequest e (req_body req) modelId)"
    using messages_sent by blast
  have "level_off (getModelReasoning e (Some modelId))"
    using assms m by (simp add: reasoning_level_def)
  then have "map_of (messages_modifiedRequest e (req_body req) modelId) ''thinking'' = None"
    by (rule messages_body_off)
  with b show "\<exists>kvs. b2 = JObj kvs \<and> map_of kvs ''thinking'' = None" by blast
next
  assume "sent_body (handleDirectResponses e req key up) = Some b3"
  then obtain modelId r where m: "resolved_model_id e req = Some modelId"
    and r: "responses_modifiedRequest e (req_body req) modelId = Inr r"
    and b: "b3 = JObj r"
    using responses_sent by blast
  have "level_off (getModelReasoning e (Some modelId))"
    using assms m by (simp add: reasoning_level_def)
  then have "map_of r ''reasoning'' = None" using r by (rule responses_body_off)
  with b show "\<exists>kvs. b3 = JObj kvs \<and> map_of kvs ''reasoning'' = None" by blast
qed

text \<open>
  The three paths at work on a model configured \<^verbatim>\<open>off\<close>: each request reaches the upstream
  without the field of its family.
\<close>

theorem off_removes_own_field_witness:
  "level_off (reasoning_level (ex_env (Some ''off'') None) (ex_req ex_chat_body))
   \<and> resolved_type (ex_env (Some ''off'') None) (ex_req ex_chat_body) = Some ''common''
   \<and> sent_body (handleChatCompletions (ex_env (Some ''off'') None) (ex_req ex_chat_body) (Inr ''Bearer k'') ex_ok)
       = Some (JObj (AList.delete ''reasoning_effort'' ex_chat_body))
   \<and> map_of (AList.delete ''reasoning_effort'' ex_chat_body) ''reasoning_effort'' = None
   \<and> sent_body (handleDirectMessages (ex_env (Some ''off'') None) (ex_req ex_messages_body) (Inr ''Bearer k'') ex_ok)
       = Some (JObj (AList.delete ''thinking'' ex_messages_body))
   \<and> map_of (AList.delete ''thinking'' ex_messages_body) ''thinking'' = None
   \<and> sent_body (handleDirectResponses (ex_env (Some ''off'') None) (ex_req ex_responses_body) (Inr ''Bearer k'') ex_ok)
       = Some (JObj (AList.delete ''reasoning'' ex_responses_body))
   \<and> map_of (AList.delete ''reasoning'' ex_responses_body) ''reasoning'' = None"
  using
    off_removes_own_field [of "ex_env (Some ''off'') None" "ex_req ex_chat_body" "Inr ''Bearer k''" ex_ok
      "JObj (AList.delete ''reasoning_effort'' ex_chat_body)"]
    off_removes_own_field [of "ex_env (Some ''off'') None" "ex_req ex_messages_body" "Inr ''Bearer k''" ex_ok _
      "JObj (AList.delete ''thinking'' ex_messages_body)"]
    off_removes_own_field [of "ex_env (Some ''off'') None" "ex_req ex_responses_body" "Inr ''Bearer k''" ex_ok _ _
      "JObj (AList.delete ''reasoning'' ex_responses_body)"]
  by (simp add: ex_defs handleChatCompletions_def transformToCommon_def prepend_system_prompt_def handleDirectMessages_def
      messages_modifiedRequest_def handleDirectResponses_def responses_modifiedRequest_def)

text \<open>
  C1 as it is worded does not hold: the body is not free of all three fields. A chat request
  to a common model configured \<^verbatim>\<open>off\<close> loses its \<^verbatim>\<open>reasoning_effort\<close> and keeps the \<^verbatim>\<open>thinking\<close>
  field the client sent.
\<close>

theorem off_keeps_other_fields_counterexample:
  "level_off (reasoning_level (ex_env (Some ''off'') None) (ex_req ex_chat_body))
   \<and> body_field (JObj ex_chat_body) ''thinking'' = Some (JObj [(''type'', JStr ''enabled'')])
   \<and> sent_body (handleChatCompletions (ex_env (Some ''off'') None) (ex_req ex_chat_body) (Inr ''Bearer k'') ex_ok)
       = Some (JObj
           [(''model'', JStr ''glm-4.6''),
            (''messages'', JArr [JObj [(''role'', JStr ''user''), (''content'', JStr ''Hello'')]]),
            (''thinking'', JObj [(''type'', JStr ''enabled'')])])"
  by (simp add: ex_defs body_field_def opt_prop_def handleChatCompletions_def transformToCommon_def prepend_system_prompt_def)

subsection \<open>Reasoning level low, medium or high\<close>






subsection \<open>Reasoning level auto\<close>








subsection \<open>System prompt\<close>

lemma is_system_result: "is_system m = Inr b \<Longrightarrow> b = has_role_system m"
  by (cases m) (auto simp: is_system_def has_role_system_def body_field_def opt_prop_def)

lemma some_system_none:
  assumes "\<forall>m \<in> set ms. \<not> has_role_system m" and "some_system ms = Inr b"
  shows "\<not> b"
  using assms
  by (induction ms) (auto split: sum.splits if_splits dest: is_system_result)

lemma some_system_prefix:
  assumes "\<forall>m \<in> set pre. \<not> has_role_system m" and "some_system (pre @ rest) = Inr b"
  shows "\<forall>m \<in> set pre. is_system m = Inr False"
  using assms
  by (induction pre) (auto split: sum.splits if_splits dest: is_system_result)

lemma some_system_hit:
  assumes "\<forall>m \<in> set pre. is_system m = Inr False" and "is_system s = Inr True"
  shows "some_system (pre @ s # post) = Inr True"
  using assms by (induction pre) auto

lemma findIndex_system_hit:
  assumes "\<forall>m \<in> set pre. is_system m = Inr False" and "is_system s = Inr True"
  shows "findIndex_system i (pre @ s # post) = Inr (int (i + length pre))"
  using assms by (induction pre arbitrary: i) auto

lemma map_indexed_append:
  "map_indexed f i (xs @ ys) =
     (case map_indexed f i xs of
        Inl e \<Rightarrow> Inl e
      | Inr xs' \<Rightarrow> (case map_indexed f (i + length xs) ys of
                      Inl e \<Rightarrow> Inl e
                    | Inr ys' \<Rightarrow> Inr (xs' @ ys')))"
  by (induction xs arbitrary: i) (auto split: sum.splits)

lemma map_indexed_before:
  assumes "\<forall>m \<in> set xs. is_system m = Inr False"
  shows "map_indexed (prepend_callback p ms) i xs = Inr xs"
  using assms by (induction xs arbitrary: i) (auto simp: prepend_callback_def)

lemma map_indexed_after:
  assumes "findIndex_system 0 ms = Inr (int n)" and "n < i"
    and "map_indexed (prepend_callback p ms) i xs = Inr ys"
  shows "ys = xs"
  using assms(2,3)
proof (induction xs arbitrary: i ys)
  case Nil
  then show ?case by simp
next
  case (Cons x xs)
  from Cons.prems obtain y ys' where y: "prepend_callback p ms x i = Inr y"
    and ys': "map_indexed (prepend_callback p ms) (Suc i) xs = Inr ys'" and ys: "ys = y # ys'"
    by (auto split: sum.splits)
  have "y = x" using y assms(1) Cons.prems(1)
    by (auto simp: prepend_callback_def split: sum.splits if_splits)
  moreover have "ys' = xs" using Cons.IH[of "Suc i" ys'] Cons.prems(1) ys' by simp
  ultimately show ?case using ys by simp
qed

lemma map_indexed_first_system:
  assumes pre: "\<forall>m \<in> set pre. is_system m = Inr False"
    and s: "is_system (JObj skvs) = Inr True"
    and res: "map_indexed (prepend_callback p (pre @ JObj skvs # post)) 0 (pre @ JObj skvs # post) = Inr ys"
  shows "ys = pre @ JObj [(''role'', JStr ''system''),
                          (''content'', JStr (p @ (case map_of skvs ''content'' of
                                                     Some (JStr c) \<Rightarrow> c | _ \<Rightarrow> [])))] # post"
proof -
  let ?ms = "pre @ JObj skvs # post"
  have idx: "findIndex_system 0 ?ms = Inr (int (length pre))"
    using findIndex_system_hit[OF pre s, of 0 post] by simp
  have before: "map_indexed (prepend_callback p ?ms) 0 pre = Inr pre"
    using pre by (rule map_indexed_before)
  have hit: "prepend_callback p ?ms (JObj skvs) (length pre) =
      Inr (JObj [(''role'', JStr ''system''),
                 (''content'', JStr (p @ (case map_of skvs ''content'' of
                                             Some (JStr c) \<Rightarrow> c | _ \<Rightarrow> [])))])"
    using s idx by (simp add: prepend_callback_def)
  from res before hit obtain post' where
    post': "map_indexed (prepend_callback p ?ms) (Suc (length pre)) post = Inr post'"
    and ys: "ys = pre @ JObj [(''role'', JStr ''system''),
                 (''content'', JStr (p @ (case map_of skvs ''content'' of
                                             Some (JStr c) \<Rightarrow> c | _ \<Rightarrow> [])))] # post'"
    by (auto simp: map_indexed_append split: sum.splits)
  have "post' = post" using idx _ post' by (rule map_indexed_after) simp
  with ys show ?thesis by simp
qed

lemma prepend_system_prompt_messages:
  assumes "prepend_system_prompt p r = Inr mid"
  shows "case map_of r ''messages'' of
           None \<Rightarrow> map_of mid ''messages'' =
                    Some (JArr [JObj [(''role'', JStr ''system''), (''content'', JStr p)]])
         | Some JNull \<Rightarrow> map_of mid ''messages'' =
                    Some (JArr [JObj [(''role'', JStr ''system''), (''content'', JStr p)]])
         | Some (JArr ms) \<Rightarrow>
             (\<exists>b. some_system ms = Inr b \<and>
                (if b then (\<exists>ms'. map_indexed (prepend_callback p ms) 0 ms = Inr ms'
                              \<and> map_of mid ''messages'' = Some (JArr ms'))
                 else map_of mid ''messages'' =
                    Some (JArr (JObj [(''role'', JStr ''system''), (''content'', JStr p)] # ms))))
         | Some v \<Rightarrow> False"
proof (cases "map_of r ''messages''")
  case None
  with assms show ?thesis
    by (auto simp: prepend_system_prompt_def Let_def update_conv')
next
  case (Some v)
  show ?thesis
  proof (cases v)
    case JNull
    with Some assms show ?thesis
      by (auto simp: prepend_system_prompt_def Let_def update_conv')
  next
    case (JArr ms)
    show ?thesis
    proof (cases "some_system ms")
      case (Inl err)
      with Some JArr assms show ?thesis by (simp add: prepend_system_prompt_def Let_def)
    next
      case (Inr b)
      show ?thesis
      proof (cases b)
        case True
        with Inr Some JArr assms obtain ms' where
          "map_indexed (prepend_callback p ms) 0 ms = Inr ms'"
          and "mid = AList.update ''messages'' (JArr ms') r"
          by (auto simp: prepend_system_prompt_def Let_def split: sum.splits)
        with True Inr Some JArr show ?thesis by (auto simp: update_conv')
      next
        case False
        with Inr Some JArr assms
        have "mid = AList.update ''messages''
                (JArr (JObj [(''role'', JStr ''system''), (''content'', JStr p)] # ms)) r"
          by (auto simp: prepend_system_prompt_def Let_def)
        with False Inr Some JArr show ?thesis by (auto simp: update_conv')
      qed
    qed
  next
    case (JBool x)
    with Some assms show ?thesis by (simp add: prepend_system_prompt_def Let_def)
  next
    case (JNum x)
    with Some assms show ?thesis by (simp add: prepend_system_prompt_def Let_def)
  next
    case (JStr x)
    with Some assms show ?thesis by (simp add: prepend_system_prompt_def Let_def)
  next
    case (JObj x)
    with Some assms show ?thesis by (simp add: prepend_system_prompt_def Let_def)
  qed
qed

lemma transformToCommon_messages:
  assumes "transformToCommon e r = Inr out" and "configured_prompt e = Some p"
  shows "case map_of r ''messages'' of
           None \<Rightarrow> map_of out ''messages'' =
                    Some (JArr [JObj [(''role'', JStr ''system''), (''content'', JStr p)]])
         | Some JNull \<Rightarrow> map_of out ''messages'' =
                    Some (JArr [JObj [(''role'', JStr ''system''), (''content'', JStr p)]])
         | Some (JArr ms) \<Rightarrow>
             (\<exists>b. some_system ms = Inr b \<and>
                (if b then (\<exists>ms'. map_indexed (prepend_callback p ms) 0 ms = Inr ms'
                              \<and> map_of out ''messages'' = Some (JArr ms'))
                 else map_of out ''messages'' =
                    Some (JArr (JObj [(''role'', JStr ''system''), (''content'', JStr p)] # ms))))
         | Some v \<Rightarrow> False"
proof -
  from transformToCommon_phases[OF assms(1)] assms(2) obtain mid where
    mid: "prepend_system_prompt p r = Inr mid"
    and out: "out = (case getModelReasoning e (map_of r ''model'') of
                  None \<Rightarrow> AList.delete ''reasoning_effort'' mid
                | Some l \<Rightarrow> if l = ''auto'' then mid
                            else if l \<in> set [''low'', ''medium'', ''high'']
                            then AList.update ''reasoning_effort'' (JStr l) mid
                            else AList.delete ''reasoning_effort'' mid)"
    by auto
  have eq: "map_of mid ''messages'' = map_of out ''messages''"
    unfolding out by (simp add: update_conv' delete_conv' split: option.splits)
  show ?thesis using prepend_system_prompt_messages[OF mid] unfolding eq .
qed

lemma common_prepends_to_first_system:
  assumes out: "transformToCommon e r = Inr out" and p: "configured_prompt e = Some p"
    and ms: "map_of r ''messages'' = Some (JArr (pre @ JObj skvs # post))"
    and pre: "\<forall>m \<in> set pre. \<not> has_role_system m"
    and role: "map_of skvs ''role'' = Some (JStr ''system'')"
    and content: "map_of skvs ''content'' = Some (JStr c)"
  shows "map_of out ''messages'' =
           Some (JArr (pre @ JObj [(''role'', JStr ''system''), (''content'', JStr (p @ c))] # post))"
proof -
  let ?ms = "pre @ JObj skvs # post"
  from transformToCommon_messages[OF out p] ms obtain b where b: "some_system ?ms = Inr b"
    and res: "if b then (\<exists>ms'. map_indexed (prepend_callback p ?ms) 0 ?ms = Inr ms'
                              \<and> map_of out ''messages'' = Some (JArr ms'))
                 else map_of out ''messages'' =
                    Some (JArr (JObj [(''role'', JStr ''system''), (''content'', JStr p)] # ?ms))"
    by auto
  have pre': "\<forall>m \<in> set pre. is_system m = Inr False"
    using pre b by (rule some_system_prefix)
  have s: "is_system (JObj skvs) = Inr True" using role by (simp add: is_system_def)
  have "b" using some_system_hit[OF pre' s, of post] b by simp
  with res obtain ms' where ms': "map_indexed (prepend_callback p ?ms) 0 ?ms = Inr ms'"
    and o: "map_of out ''messages'' = Some (JArr ms')" by auto
  from map_indexed_first_system[OF pre' s ms'] content o show ?thesis by simp
qed

lemma common_inserts_leading_system:
  assumes out: "transformToCommon e r = Inr out" and p: "configured_prompt e = Some p"
    and ms: "map_of r ''messages'' = Some (JArr ms)"
    and none: "\<forall>m \<in> set ms. \<not> has_role_system m"
  shows "map_of out ''messages'' =
           Some (JArr (JObj [(''role'', JStr ''system''), (''content'', JStr p)] # ms))"
proof -
  from transformToCommon_messages[OF out p] ms obtain b where b: "some_system ms = Inr b"
    and res: "if b then (\<exists>ms'. map_indexed (prepend_callback p ms) 0 ms = Inr ms'
                              \<and> map_of out ''messages'' = Some (JArr ms'))
                 else map_of out ''messages'' =
                    Some (JArr (JObj [(''role'', JStr ''system''), (''content'', JStr p)] # ms))"
    by auto
  have "\<not> b" using none b by (rule some_system_none)
  with res show ?thesis by simp
qed

lemma messages_prepends_block:
  assumes "configured_prompt e = Some p"
    and "map_of (spread body) ''system'' = Some (JArr blocks)"
  shows "map_of (messages_modifiedRequest e body modelId) ''system'' =
           Some (JArr (JObj [(''type'', JStr ''text''), (''text'', JStr p)] # blocks))"
  using assms
  by (auto simp: messages_modifiedRequest_def Let_def update_conv' delete_conv' split: option.splits)

lemma responses_prepends_text:
  assumes "configured_prompt e = Some p"
    and "map_of (spread body) ''instructions'' = Some (JStr i)"
    and "responses_modifiedRequest e body modelId = Inr r"
  shows "map_of r ''instructions'' = Some (JStr (p @ i))"
  using assms
  by (auto simp: responses_modifiedRequest_def Let_def update_conv' delete_conv'
      split: option.splits if_splits)

lemma client_field_of_copy:
  assumes "k \<in> set [''messages'', ''system'', ''instructions'', ''stream'']"
  shows "map_of (AList.update ''model'' modelId (spread body)) k = body_field body k"
proof -
  have "CHR ''s'' \<in> set k" using assms by auto
  then have "map_of (spread body) k = body_field body k" by (rule spread_field) simp
  moreover have "k \<noteq> ''model''" using assms by auto
  ultimately show ?thesis by (simp add: update_conv')
qed

text \<open>
  C4, as the code has it. When a system prompt is configured, it goes ahead of the client's
  system content, and that content is kept after it, where the content has the shape the
  route handles. Common: the first system-role message whose content is a string becomes
  \<^verbatim>\<open>{role: "system", content: prompt + content}\<close> in its place, and when no message has the
  system role a new system message leads the list. \<^verbatim>\<open>/v1/messages\<close>: a \<^verbatim>\<open>system\<close> array gets a new
  text block in front of the client's blocks. \<^verbatim>\<open>/v1/responses\<close>: an \<^verbatim>\<open>instructions\<close> string gets
  the prompt in front.
\<close>

theorem system_prompt_prepended:
  assumes "configured_prompt e = Some p"
  shows "(sent_body (handleChatCompletions e req key up) = Some b1 \<and> resolved_type e req = Some ''common''
            \<and> body_field (req_body req) ''messages'' = Some (JArr (pre @ JObj skvs # post))
            \<and> (\<forall>m \<in> set pre. \<not> has_role_system m)
            \<and> map_of skvs ''role'' = Some (JStr ''system'')
            \<and> map_of skvs ''content'' = Some (JStr c)
          \<longrightarrow> body_field b1 ''messages'' =
                Some (JArr (pre @ JObj [(''role'', JStr ''system''), (''content'', JStr (p @ c))] # post)))
       \<and> (sent_body (handleChatCompletions e req key up) = Some b1 \<and> resolved_type e req = Some ''common''
            \<and> body_field (req_body req) ''messages'' = Some (JArr ms)
            \<and> (\<forall>m \<in> set ms. \<not> has_role_system m)
          \<longrightarrow> body_field b1 ''messages'' =
                Some (JArr (JObj [(''role'', JStr ''system''), (''content'', JStr p)] # ms)))
       \<and> (sent_body (handleDirectMessages e req key up) = Some b2
            \<and> body_field (req_body req) ''system'' = Some (JArr blocks)
          \<longrightarrow> body_field b2 ''system'' =
                Some (JArr (JObj [(''type'', JStr ''text''), (''text'', JStr p)] # blocks)))
       \<and> (sent_body (handleDirectResponses e req key up) = Some b3
            \<and> body_field (req_body req) ''instructions'' = Some (JStr i)
          \<longrightarrow> body_field b3 ''instructions'' = Some (JStr (p @ i)))"
proof (intro conjI impI)
  assume a: "sent_body (handleChatCompletions e req key up) = Some b1 \<and> resolved_type e req = Some ''common''
            \<and> body_field (req_body req) ''messages'' = Some (JArr (pre @ JObj skvs # post))
            \<and> (\<forall>m \<in> set pre. \<not> has_role_system m)
            \<and> map_of skvs ''role'' = Some (JStr ''system'')
            \<and> map_of skvs ''content'' = Some (JStr c)"
  then obtain modelId r where
    r: "transformToCommon e (AList.update ''model'' modelId (spread (req_body req))) = Inr r"
    and b: "b1 = JObj r"
    using chat_sent_common by blast
  have ms: "map_of (AList.update ''model'' modelId (spread (req_body req))) ''messages''
              = Some (JArr (pre @ JObj skvs # post))"
    using a by (simp add: client_field_of_copy)
  from common_prepends_to_first_system[OF r assms ms] a b
  show "body_field b1 ''messages'' =
                Some (JArr (pre @ JObj [(''role'', JStr ''system''), (''content'', JStr (p @ c))] # post))"
    by (simp add: body_field_def opt_prop_def)
next
  assume a: "sent_body (handleChatCompletions e req key up) = Some b1 \<and> resolved_type e req = Some ''common''
            \<and> body_field (req_body req) ''messages'' = Some (JArr ms)
            \<and> (\<forall>m \<in> set ms. \<not> has_role_system m)"
  then obtain modelId r where
    r: "transformToCommon e (AList.update ''model'' modelId (spread (req_body req))) = Inr r"
    and b: "b1 = JObj r"
    using chat_sent_common by blast
  have ms: "map_of (AList.update ''model'' modelId (spread (req_body req))) ''messages'' = Some (JArr ms)"
    using a by (simp add: client_field_of_copy)
  from common_inserts_leading_system[OF r assms ms] a b
  show "body_field b1 ''messages'' =
                Some (JArr (JObj [(''role'', JStr ''system''), (''content'', JStr p)] # ms))"
    by (simp add: body_field_def opt_prop_def)
next
  assume a: "sent_body (handleDirectMessages e req key up) = Some b2
            \<and> body_field (req_body req) ''system'' = Some (JArr blocks)"
  then obtain modelId where b: "b2 = JObj (messages_modifiedRequest e (req_body req) modelId)"
    using messages_sent by blast
  have "CHR ''s'' \<in> set ''system''" by simp
  then have "map_of (spread (req_body req)) ''system'' = body_field (req_body req) ''system''"
    by (rule spread_field) simp
  with a have "map_of (spread (req_body req)) ''system'' = Some (JArr blocks)" by simp
  from messages_prepends_block[OF assms this] b
  show "body_field b2 ''system'' =
                Some (JArr (JObj [(''type'', JStr ''text''), (''text'', JStr p)] # blocks))"
    by (simp add: body_field_def opt_prop_def)
next
  assume a: "sent_body (handleDirectResponses e req key up) = Some b3
            \<and> body_field (req_body req) ''instructions'' = Some (JStr i)"
  then obtain modelId r where r: "responses_modifiedRequest e (req_body req) modelId = Inr r"
    and b: "b3 = JObj r"
    using responses_sent by blast
  have "CHR ''s'' \<in> set ''instructions''" by simp
  then have "map_of (spread (req_body req)) ''instructions'' = body_field (req_body req) ''instructions''"
    by (rule spread_field) simp
  with a have "map_of (spread (req_body req)) ''instructions'' = Some (JStr i)" by simp
  from responses_prepends_text[OF assms this r] b
  show "body_field b3 ''instructions'' = Some (JStr (p @ i))"
    by (simp add: body_field_def opt_prop_def)
qed

text \<open>The four cases at work with the prompt \<^verbatim>\<open>You are Droid.\<close> configured.\<close>

theorem system_prompt_prepended_witness:
  "configured_prompt (ex_env (Some ''auto'') (Some ''You are Droid. '')) = Some ''You are Droid. ''
   \<and> resolved_type (ex_env (Some ''auto'') (Some ''You are Droid. '')) (ex_req ex_chat_system_body) = Some ''common''
   \<and> sent_body (handleChatCompletions (ex_env (Some ''auto'') (Some ''You are Droid. ''))
         (ex_req ex_chat_system_body) (Inr ''Bearer k'') ex_ok)
       = Some (JObj
           [(''model'', JStr ''glm-4.6''),
            (''messages'', JArr
               [JObj [(''role'', JStr ''user''), (''content'', JStr ''Hello'')],
                JObj [(''role'', JStr ''system''), (''content'', JStr ''You are Droid. Be brief.'')],
                JObj [(''role'', JStr ''system''), (''content'', JStr ''Be kind.'')]])])
   \<and> sent_body (handleChatCompletions (ex_env (Some ''auto'') (Some ''You are Droid. ''))
         (ex_req ex_chat_body) (Inr ''Bearer k'') ex_ok)
       = Some (JObj
           [(''model'', JStr ''glm-4.6''),
            (''messages'', JArr
               [JObj [(''role'', JStr ''system''), (''content'', JStr ''You are Droid. '')],
                JObj [(''role'', JStr ''user''), (''content'', JStr ''Hello'')]]),
            (''reasoning_effort'', JStr ''minimal''),
            (''thinking'', JObj [(''type'', JStr ''enabled'')])])
   \<and> sent_body (handleDirectMessages (ex_env (Some ''auto'') (Some ''You are Droid. ''))
         (ex_req ex_messages_blocks_body) (Inr ''Bearer k'') ex_ok)
       = Some (JObj
           [(''model'', JStr ''claude-opus-4-1-20250805''),
            (''system'', JArr [JObj [(''type'', JStr ''text''), (''text'', JStr ''You are Droid. '')],
                               JObj [(''type'', JStr ''text''), (''text'', JStr ''Be brief.'')]]),
            (''messages'', JArr [JObj [(''role'', JStr ''user''), (''content'', JStr ''Hello'')]])])
   \<and> sent_body (handleDirectResponses (ex_env (Some ''auto'') (Some ''You are Droid. ''))
         (ex_req ex_responses_instructions_body) (Inr ''Bearer k'') ex_ok)
       = Some (JObj
           [(''model'', JStr ''gpt-5-2025-08-07''),
            (''instructions'', JStr ''You are Droid. Be brief.''),
            (''input'', JStr ''Hello'')])"
  using
    system_prompt_prepended [of "ex_env (Some ''auto'') (Some ''You are Droid. '')" "''You are Droid. ''"
      "ex_req ex_chat_system_body" "Inr ''Bearer k''" ex_ok
      "JObj
           [(''model'', JStr ''glm-4.6''),
            (''messages'', JArr
               [JObj [(''role'', JStr ''user''), (''content'', JStr ''Hello'')],
                JObj [(''role'', JStr ''system''), (''content'', JStr ''You are Droid. Be brief.'')],
                JObj [(''role'', JStr ''system''), (''content'', JStr ''Be kind.'')]])]"
      "[JObj [(''role'', JStr ''user''), (''content'', JStr ''Hello'')]]"
      "[(''role'', JStr ''system''), (''content'', JStr ''Be brief.'')]"
      "[JObj [(''role'', JStr ''system''), (''content'', JStr ''Be kind.'')]]"
      "''Be brief.''"]
    system_prompt_prepended [of "ex_env (Some ''auto'') (Some ''You are Droid. '')" "''You are Droid. ''"
      "ex_req ex_messages_blocks_body" "Inr ''Bearer k''" ex_ok _ _ _ _ _ _
      "JObj
           [(''model'', JStr ''claude-opus-4-1-20250805''),
            (''system'', JArr [JObj [(''type'', JStr ''text''), (''text'', JStr ''You are Droid. '')],
                               JObj [(''type'', JStr ''text''), (''text'', JStr ''Be brief.'')]]),
            (''messages'', JArr [JObj [(''role'', JStr ''user''), (''content'', JStr ''Hello'')]])]"
      "[JObj [(''type'', JStr ''text''), (''text'', JStr ''Be brief.'')]]"]
    system_prompt_prepended [of "ex_env (Some ''auto'') (Some ''You are Droid. '')" "''You are Droid. ''"
      "ex_req ex_responses_instructions_body" "Inr ''Bearer k''" ex_ok _ _ _ _ _ _ _ _
      "JObj
           [(''model'', JStr ''gpt-5-2025-08-07''),
            (''instructions'', JStr ''You are Droid. Be brief.''),
            (''input'', JStr ''Hello'')]"
      "''Be brief.''"]
  by (simp add: ex_defs body_field_def opt_prop_def has_role_system_def
      handleChatCompletions_def transformToCommon_def prepend_system_prompt_def prepend_callback_def
      is_system_def handleDirectMessages_def
      messages_modifiedRequest_def handleDirectResponses_def responses_modifiedRequest_def)

text \<open>
  C4 as it is worded does not hold for every request: client system content of another
  shape is not kept. A \<^verbatim>\<open>/v1/messages\<close> request whose \<^verbatim>\<open>system\<close> is a string reaches the upstream
  with the prompt block alone, and a common chat request whose system message has its
  content in parts reaches it with the prompt text alone.
\<close>

theorem system_content_dropped_counterexample:
  "body_field (JObj ex_messages_string_body) ''system'' = Some (JStr ''Be brief.'')
   \<and> sent_body (handleDirectMessages (ex_env (Some ''auto'') (Some ''You are Droid. ''))
         (ex_req ex_messages_string_body) (Inr ''Bearer k'') ex_ok)
       = Some (JObj
           [(''model'', JStr ''claude-opus-4-1-20250805''),
            (''system'', JArr [JObj [(''type'', JStr ''text''), (''text'', JStr ''You are Droid. '')]]),
            (''messages'', JArr [JObj [(''role'', JStr ''user''), (''content'', JStr ''Hello'')]])])
   \<and> sent_body (handleChatCompletions (ex_env (Some ''auto'') (Some ''You are Droid. ''))
         (ex_req ex_chat_parts_body) (Inr ''Bearer k'') ex_ok)
       = Some (JObj
           [(''model'', JStr ''glm-4.6''),
            (''messages'', JArr
               [JObj [(''role'', JStr ''system''), (''content'', JStr ''You are Droid. '')],
                JObj [(''role'', JStr ''user''), (''content'', JStr ''Hello'')]])])"
  by (simp add: ex_defs body_field_def opt_prop_def
      handleChatCompletions_def transformToCommon_def prepend_system_prompt_def prepend_callback_def
      is_system_def handleDirectMessages_def messages_modifiedRequest_def)

subsection \<open>Unknown models\<close>

text \<open>
  C5, as the code has it. A request whose model id resolves, directly or through a redirect,
  to an id that is not configured is answered with status 404 and the message
  \<^verbatim>\<open>Model <id> not found\<close>, where the id is the one the request resolved to (the requested id
  when no redirect applies), for every id the template literal can print: a string id
  prints as itself. Neither the credential lookup nor the upstream call is made.
\<close>

theorem unknown_model_not_found:
  assumes "resolved_model_id e req = Some modelId" and "truthy modelId"
    and "getModelById e modelId = None"
    and "to_str (numberToString e) modelId = Inr shown"
  shows "handleChatCompletions e req key up =
           ([], Json 404 (JObj [(''error'', JStr (''Model '' @ shown @ '' not found''))]))
       \<and> handleDirectResponses e req key up =
           ([], Json 404 (JObj [(''error'', JStr (''Model '' @ shown @ '' not found''))]))
       \<and> handleDirectMessages e req key up =
           ([], Json 404 (JObj [(''error'', JStr (''Model '' @ shown @ '' not found''))]))
       \<and> handleCountTokens e req key up =
           ([], Json 404 (JObj [(''error'', JStr (''Model '' @ shown @ '' not found''))]))"
proof -
  obtain requested where r: "get_prop (req_body req) ''model'' = Inr requested"
    and m: "getRedirectedModelId e requested = Some modelId"
    using assms(1) by (auto simp: resolved_model_id_def split: sum.splits)
  have "handleChatCompletions e req key up = ([], model_not_found e modelId)"
    using r m assms(2,3) by (simp add: handleChatCompletions_def)
  moreover have "handleDirectResponses e req key up = ([], model_not_found e modelId)"
    using r m assms(2,3) by (simp add: handleDirectResponses_def)
  moreover have "handleDirectMessages e req key up = ([], model_not_found e modelId)"
    using r m assms(2,3) by (simp add: handleDirectMessages_def)
  moreover have "handleCountTokens e req key up = ([], model_not_found e modelId)"
    using r m assms(2,3) by (simp add: handleCountTokens_def)
  ultimately show ?thesis using assms(4) by (simp add: model_not_found_def)
qed

text \<open>An id that is not configured and not redirected, on two of the routes.\<close>

theorem unknown_model_not_found_witness:
  "resolved_model_id (ex_env None None) (ex_req [(''model'', JStr ''gpt-9'')]) = Some (JStr ''gpt-9'')
   \<and> truthy (JStr ''gpt-9'')
   \<and> getModelById (ex_env None None) (JStr ''gpt-9'') = None
   \<and> to_str (numberToString (ex_env None None)) (JStr ''gpt-9'') = Inr ''gpt-9''
   \<and> handleChatCompletions (ex_env None None) (ex_req [(''model'', JStr ''gpt-9'')]) (Inr ''Bearer k'') ex_ok
       = ([], Json 404 (JObj [(''error'', JStr ''Model gpt-9 not found'')]))
   \<and> handleDirectResponses (ex_env None None) (ex_req [(''model'', JStr ''gpt-9'')]) (Inr ''Bearer k'') ex_ok
       = ([], Json 404 (JObj [(''error'', JStr ''Model gpt-9 not found'')]))"
  using unknown_model_not_found [of "ex_env None None" "ex_req [(''model'', JStr ''gpt-9'')]" "JStr ''gpt-9''"
      "''gpt-9''" "Inr ''Bearer k''" ex_ok]
  by (simp add: ex_defs)

text \<open>
  C5 as it is worded does not hold through a redirect: the request names \<^verbatim>\<open>alias\<close>, the
  registry redirects it to \<^verbatim>\<open>ghost\<close>, which is not configured, and the message names \<^verbatim>\<open>ghost\<close>.
  Nor is the answer always a 404: an id that is an object with a \<^verbatim>\<open>toString\<close> property of its
  own cannot be printed into the message, and the handler's \<^verbatim>\<open>catch\<close> answers 500.
\<close>

theorem redirected_id_named_counterexample:
  "body_field (req_body (ex_req [(''model'', JStr ''alias'')])) ''model'' = Some (JStr ''alias'')
   \<and> handleChatCompletions (ex_env None None) (ex_req [(''model'', JStr ''alias'')]) (Inr ''Bearer k'') ex_ok
       = ([], Json 404 (JObj [(''error'', JStr ''Model ghost not found'')]))
   \<and> handleChatCompletions (ex_env None None)
        (ex_req [(''model'', JObj [(''toString'', JNum 1)])]) (Inr ''Bearer k'') ex_ok
       = ([], InternalError TypeError)"
  by (simp add: ex_defs body_field_def opt_prop_def handleChatCompletions_def model_not_found_def)

subsection \<open>Upstream errors\<close>

text \<open>What a handler wrote, once it had called the upstream and got an answer.\<close>

lemma chat_after_fetch:
  assumes "sent_body (handleChatCompletions e req key (Inr up)) = Some tr"
  shows "\<exists>modelId model. resolved_model_id e req = Some modelId \<and> getModelById e modelId = Some model
           \<and> snd (handleChatCompletions e req key (Inr up)) =
                (if response_ok up then chat_relay e model modelId tr up else endpoint_error up)"
  using assms
  by (auto simp: sent_body_def handleChatCompletions_def resolved_model_id_def Let_def
      split: sum.splits option.splits if_splits)

lemma responses_after_fetch:
  assumes "sent_body (handleDirectResponses e req key (Inr up)) = Some b"
  shows "snd (handleDirectResponses e req key (Inr up)) =
           (if response_ok up
            then direct_relay (body_field (req_body req) ''stream'' = Some (JBool True)) up
            else endpoint_error up)"
  using assms
  by (auto simp: sent_body_def handleDirectResponses_def body_field_def Let_def
      split: sum.splits option.splits if_splits)

lemma messages_after_fetch:
  assumes "sent_body (handleDirectMessages e req key (Inr up)) = Some b"
  shows "snd (handleDirectMessages e req key (Inr up)) =
           (if response_ok up
            then direct_relay (body_field (req_body req) ''stream'' = Some (JBool True)) up
            else endpoint_error up)"
  using assms
  by (auto simp: sent_body_def handleDirectMessages_def body_field_def Let_def
      split: sum.splits option.splits if_splits)

lemma count_after_fetch:
  assumes "sent_body (handleCountTokens e req key (Inr up)) = Some b"
  shows "snd (handleCountTokens e req key (Inr up)) =
           (if response_ok up
            then (case up_json up of None \<Rightarrow> InternalError SyntaxError | Some data \<Rightarrow> Json 200 data)
            else endpoint_error up)"
  using assms
  by (auto simp: sent_body_def handleCountTokens_def Let_def
      split: sum.splits option.splits if_splits)

lemma show_nat_429: "show_nat 429 = ''429''"
  by (simp add: show_nat.simps digit_def)

text \<open>
  C6, as the code has it. On each of the four routes, an upstream answer with a status
  outside 200..299 is answered with the same status and the body
  \<^verbatim>\<open>{error: "Endpoint returned <status>", details: <the upstream body as text>}\<close>.
\<close>

theorem upstream_error_enveloped:
  assumes "\<not> response_ok up"
  shows "(sent_body (handleChatCompletions e req key (Inr up)) = Some b1 \<longrightarrow>
            snd (handleChatCompletions e req key (Inr up)) =
              Json (up_status up)
                (JObj [(''error'', JStr (''Endpoint returned '' @ show_nat (up_status up))),
                       (''details'', JStr (up_text up))]))
       \<and> (sent_body (handleDirectResponses e req key (Inr up)) = Some b2 \<longrightarrow>
            snd (handleDirectResponses e req key (Inr up)) =
              Json (up_status up)
                (JObj [(''error'', JStr (''Endpoint returned '' @ show_nat (up_status up))),
                       (''details'', JStr (up_text up))]))
       \<and> (sent_body (handleDirectMessages e req key (Inr up)) = Some b3 \<longrightarrow>
            snd (handleDirectMessages e req key (Inr up)) =
              Json (up_status up)
                (JObj [(''error'', JStr (''Endpoint returned '' @ show_nat (up_status up))),
                       (''details'', JStr (up_text up))]))
       \<and> (sent_body (handleCountTokens e req key (Inr up)) = Some b4 \<longrightarrow>
            snd (handleCountTokens e req key (Inr up)) =
              Json (up_status up)
                (JObj [(''error'', JStr (''Endpoint returned '' @ show_nat (up_status up))),
                       (''details'', JStr (up_text up))]))"
  using assms chat_after_fetch[of e req key up b1] responses_after_fetch[of e req key up b2]
    messages_after_fetch[of e req key up b3] count_after_fetch[of e req key up b4]
  by (auto simp: endpoint_error_def)

text \<open>A 429 from the upstream on \<^verbatim>\<open>/v1/messages\<close>.\<close>

theorem upstream_error_enveloped_witness:
  "\<not> response_ok (ex_up 429 ''rate limited'' None)
   \<and> sent_body (handleDirectMessages (ex_env (Some ''auto'') None) (ex_req ex_messages_body)
        (Inr ''Bearer k'') (Inr (ex_up 429 ''rate limited'' None))) = Some (JObj ex_messages_body)
   \<and> snd (handleDirectMessages (ex_env (Some ''auto'') None) (ex_req ex_messages_body)
        (Inr ''Bearer k'') (Inr (ex_up 429 ''rate limited'' None)))
       = Json 429 (JObj [(''error'', JStr ''Endpoint returned 429''), (''details'', JStr ''rate limited'')])"
  using upstream_error_enveloped [of "ex_up 429 ''rate limited'' None" "ex_env (Some ''auto'') None"
      "ex_req ex_messages_body" "Inr ''Bearer k''" _ _ "JObj ex_messages_body"]
  by (simp add: ex_defs show_nat_429 handleDirectMessages_def messages_modifiedRequest_def)

text \<open>
  C6 as it is worded does not hold for the body: the upstream answered 429 with the JSON
  body \<^verbatim>\<open>{message: "rate limited"}\<close>, and the client receives the status with an envelope
  of the handler's own around the upstream text.
\<close>

theorem upstream_body_not_verbatim_counterexample:
  "up_status (ex_up 429 ''rate limited'' (Some (JObj [(''message'', JStr ''rate limited'')]))) = 429
   \<and> up_json (ex_up 429 ''rate limited'' (Some (JObj [(''message'', JStr ''rate limited'')])))
       = Some (JObj [(''message'', JStr ''rate limited'')])
   \<and> snd (handleDirectResponses (ex_env (Some ''auto'') None) (ex_req ex_responses_body)
        (Inr ''Bearer k'') (Inr (ex_up 429 ''rate limited'' (Some (JObj [(''message'', JStr ''rate limited'')])))))
       = Json 429 (JObj [(''error'', JStr ''Endpoint returned 429''), (''details'', JStr ''rate limited'')])"
  by (simp add: ex_defs show_nat_429 handleDirectResponses_def responses_modifiedRequest_def
      endpoint_error_def)

subsection \<open>The non-streaming adapter\<close>

lemma is_obj_field: "is_obj j \<Longrightarrow> get_prop j k = Inr (body_field j k)"
  by (cases j) (simp_all add: is_obj_def body_field_def opt_prop_def)

lemma find_message_wf:
  assumes "list_all is_obj items"
  shows "find_message items = Inr (List.find is_message items)"
  using assms by (induction items) (simp_all add: is_obj_field is_message_def)

lemma filter_output_text_wf:
  assumes "list_all is_obj parts"
  shows "filter_output_text parts = Inr (filter is_output_text parts)"
  using assms by (induction parts) (simp_all add: is_obj_field is_output_text_def)

lemma join_texts_wf:
  assumes "list_all wf_part parts"
  shows "join_texts num (filter is_output_text parts) =
           Inr (concat (map part_text (filter is_output_text parts)))"
  using assms
proof (induction parts)
  case Nil
  then show ?case by simp
next
  case (Cons c cs)
  then have ih: "join_texts num (filter is_output_text cs) =
                   Inr (concat (map part_text (filter is_output_text cs)))"
    by simp
  show ?case
  proof (cases "is_output_text c")
    case True
    with Cons.prems obtain t where t: "body_field c ''text'' = Some (JStr t)"
      by (auto simp: wf_part_def split: option.splits json.splits)
    then have "part_text c = t" by (simp add: part_text_def)
    with True ih t show ?thesis by (simp add: body_field_def)
  next
    case False
    with ih show ?thesis by simp
  qed
qed

lemma find_wf_item:
  assumes "list_all wf_item items" and "List.find is_message items = Some msg"
  shows "wf_item msg \<and> is_message msg"
  using assms by (induction items) (auto split: if_splits)

lemma wf_parts_obj: "list_all wf_part parts \<Longrightarrow> list_all is_obj parts"
  by (induction parts) (simp_all add: wf_part_def)

lemma wf_items_obj: "list_all wf_item items \<Longrightarrow> list_all is_obj items"
  by (induction items) (simp_all add: wf_item_def)

lemma wf_output:
  assumes "well_formed_upstream resp"
  obtains items where "body_field resp ''output'' = Some (JArr items)" and "list_all wf_item items"
proof (cases "body_field resp ''output''")
  case None
  with assms show ?thesis by (simp add: well_formed_upstream_def)
next
  case (Some v)
  with assms that show ?thesis by (cases v) (simp_all add: well_formed_upstream_def)
qed

lemma adapter_message:
  assumes "well_formed_upstream resp"
  shows "(case opt_prop (Some resp) ''output'' of
                None \<Rightarrow> Inr None
              | Some (JArr items) \<Rightarrow> find_message items
              | Some v \<Rightarrow> if truthy v then Inl TypeError else Inr None) = Inr (first_message_item resp)"
proof -
  from assms obtain items where o: "body_field resp ''output'' = Some (JArr items)"
    and wf: "list_all wf_item items" by (rule wf_output)
  from o have "opt_prop (Some resp) ''output'' = Some (JArr items)" by (simp add: body_field_def)
  with o show ?thesis
    by (simp add: first_message_item_def find_message_wf[OF wf_items_obj[OF wf]])
qed

lemma wf_first_message:
  assumes "well_formed_upstream resp" and "first_message_item resp = Some msg"
  obtains parts where "body_field msg ''content'' = Some (JArr parts)" and "list_all wf_part parts"
proof -
  from assms(1) obtain items where o: "body_field resp ''output'' = Some (JArr items)"
    and wf: "list_all wf_item items" by (rule wf_output)
  from assms(2) o have "List.find is_message items = Some msg" by (simp add: first_message_item_def)
  with wf have m: "wf_item msg \<and> is_message msg" by (rule find_wf_item)
  show ?thesis
  proof (cases "body_field msg ''content''")
    case None
    with m show ?thesis by (auto simp: wf_item_def)
  next
    case (Some v)
    with m that show ?thesis by (cases v) (auto simp: wf_item_def)
  qed
qed

lemma adapter_id:
  assumes "well_formed_upstream resp"
  shows "(case opt_prop (Some resp) ''id'' of
            None \<Rightarrow> Inr (''chatcmpl-'' @ show_nat now)
          | Some (JStr s) \<Rightarrow>
              Inr (if s = [] then ''chatcmpl-'' @ show_nat now else replace_resp_prefix s)
          | Some v \<Rightarrow> if truthy v then Inl TypeError else Inr (''chatcmpl-'' @ show_nat now))
       = Inr (case body_field resp ''id'' of
                Some (JStr s) \<Rightarrow>
                  if s = [] then ''chatcmpl-'' @ show_nat now
                  else if take 5 s = ''resp_'' then ''chatcmpl-'' @ drop 5 s else s
              | _ \<Rightarrow> ''chatcmpl-'' @ show_nat now)"
proof (cases "body_field resp ''id''")
  case None
  then have "opt_prop (Some resp) ''id'' = None" by (simp add: body_field_def)
  with None show ?thesis by simp
next
  case (Some v)
  then have o: "opt_prop (Some resp) ''id'' = Some v" by (simp add: body_field_def)
  have "case body_field resp ''id'' of None \<Rightarrow> True | Some (JStr s) \<Rightarrow> True | _ \<Rightarrow> False"
    using assms by (simp add: well_formed_upstream_def)
  then have idw: "case v of JStr s \<Rightarrow> True | _ \<Rightarrow> False" unfolding Some by simp
  show ?thesis unfolding o Some using idw
    by (cases v) (simp_all add: replace_resp_prefix_def)
qed

lemma adapter_text:
  assumes "well_formed_upstream resp"
  shows "(case opt_prop (first_message_item resp) ''content'' of
                     None \<Rightarrow> Inr []
                   | Some JNull \<Rightarrow> Inr []
                   | Some (JArr cs) \<Rightarrow> filter_output_text cs
                   | Some v \<Rightarrow> Inl TypeError) = Inr textBlocks \<Longrightarrow> join_texts num textBlocks = Inr (message_text resp)"
proof (cases "first_message_item resp")
  case None
  assume "(case opt_prop (first_message_item resp) ''content'' of
                     None \<Rightarrow> Inr []
                   | Some JNull \<Rightarrow> Inr []
                   | Some (JArr cs) \<Rightarrow> filter_output_text cs
                   | Some v \<Rightarrow> Inl TypeError) = Inr textBlocks"
  with None show ?thesis by (auto simp: opt_prop_def message_text_def)
next
  case (Some msg)
  assume a: "(case opt_prop (first_message_item resp) ''content'' of
                     None \<Rightarrow> Inr []
                   | Some JNull \<Rightarrow> Inr []
                   | Some (JArr cs) \<Rightarrow> filter_output_text cs
                   | Some v \<Rightarrow> Inl TypeError) = Inr textBlocks"
  from assms Some obtain parts where parts: "body_field msg ''content'' = Some (JArr parts)"
    and wf: "list_all wf_part parts" by (rule wf_first_message)
  from a Some parts have "filter_output_text parts = Inr textBlocks"
    by (simp add: body_field_def)
  with filter_output_text_wf[OF wf_parts_obj[OF wf]] have "textBlocks = filter is_output_text parts" by simp
  with join_texts_wf[OF wf, of num] Some parts show ?thesis by (simp add: message_text_def)
qed

lemma adapter_text_total:
  assumes "well_formed_upstream resp"
  shows "\<exists>textBlocks. (case opt_prop (first_message_item resp) ''content'' of
                     None \<Rightarrow> Inr []
                   | Some JNull \<Rightarrow> Inr []
                   | Some (JArr cs) \<Rightarrow> filter_output_text cs
                   | Some v \<Rightarrow> Inl TypeError) = Inr textBlocks"
proof (cases "first_message_item resp")
  case None
  then show ?thesis by (simp add: opt_prop_def)
next
  case (Some msg)
  from assms Some obtain parts where parts: "body_field msg ''content'' = Some (JArr parts)"
    and wf: "list_all wf_part parts" by (rule wf_first_message)
  with Some filter_output_text_wf[OF wf_parts_obj[OF wf]] show ?thesis
    by (simp add: body_field_def)
qed

text \<open>
  C7. On a well-formed upstream body the adapter returns a completion with a single choice
  whose content is the concatenation, in order, of the text-typed parts of the first
  message-typed output item, whose \<^verbatim>\<open>finish_reason\<close> is \<^verbatim>\<open>stop\<close> exactly when the upstream
  status is \<^verbatim>\<open>completed\<close> and \<^verbatim>\<open>unknown\<close> otherwise, whose id is the upstream id with a
  leading \<^verbatim>\<open>resp_\<close> replaced by \<^verbatim>\<open>chatcmpl-\<close> when there is one and \<^verbatim>\<open>chatcmpl-\<close> followed by the
  clock otherwise, and whose usage counters are the upstream's, zero for a missing one.
\<close>

theorem adapter_builds_completion:
  assumes "well_formed_upstream resp"
  shows "convertResponseToChatCompletion num now resp =
     Inr (JObj
       [(''id'', JStr (case body_field resp ''id'' of
                         Some (JStr s) \<Rightarrow>
                           if s = [] then ''chatcmpl-'' @ show_nat now
                           else if take 5 s = ''resp_'' then ''chatcmpl-'' @ drop 5 s else s
                       | _ \<Rightarrow> ''chatcmpl-'' @ show_nat now)),
        (''object'', JStr ''chat.completion''),
        (''created'', or_else (body_field resp ''created_at'') (JNum (int (now div 1000)))),
        (''model'', or_else (body_field resp ''model'') (JStr ''unknown-model'')),
        (''choices'', JArr [JObj
           [(''index'', JNum 0),
            (''message'', JObj
               [(''role'', or_else (opt_prop (first_message_item resp) ''role'') (JStr ''assistant'')),
                (''content'', JStr (message_text resp))]),
            (''finish_reason'',
               JStr (if body_field resp ''status'' = Some (JStr ''completed'') then ''stop'' else ''unknown''))]]),
        (''usage'', JObj
           [(''prompt_tokens'', usage_counter resp ''input_tokens''),
            (''completion_tokens'', usage_counter resp ''output_tokens''),
            (''total_tokens'', usage_counter resp ''total_tokens'')])])"
proof -
  obtain kvs where kvs: "resp = JObj kvs"
    using assms by (cases resp) (simp_all add: well_formed_upstream_def is_obj_def)
  from adapter_text_total[OF assms] obtain textBlocks where
    tb: "(case opt_prop (first_message_item resp) ''content'' of
                     None \<Rightarrow> Inr []
                   | Some JNull \<Rightarrow> Inr []
                   | Some (JArr cs) \<Rightarrow> filter_output_text cs
                   | Some v \<Rightarrow> Inl TypeError) = Inr textBlocks" by blast
  have mt: "join_texts num textBlocks = Inr (message_text resp)" using adapter_text[OF assms tb] .
  have guard: "(\<not> truthy resp \<or> \<not> (case resp of JObj kvs \<Rightarrow> True | JArr xs \<Rightarrow> True | _ \<Rightarrow> False)) = False"
    using kvs by simp
  have usage: "\<And>k. or_zero (opt_prop (opt_prop (Some resp) ''usage'') k) = usage_counter resp k"
    by (simp add: usage_counter_def or_zero_def body_field_def)
  have field: "\<And>k. opt_prop (Some resp) k = body_field resp k"
    by (simp add: body_field_def)
  show ?thesis
    unfolding convertResponseToChatCompletion_def
    apply (simp only: guard if_False adapter_message[OF assms] sum.case tb Let_def mt
        adapter_id[OF assms] usage)
    apply (simp only: field)
    apply simp
    done
qed

text \<open>
  The adapter on a completed body (the second message item and the refusal part do not
  count) and on a body with no id, no message and no usage.
\<close>

theorem adapter_builds_completion_witness:
  "well_formed_upstream ex_response_body
   \<and> convertResponseToChatCompletion show_int 1700000000000 ex_response_body =
     Inr (JObj
       [(''id'', JStr ''chatcmpl-abc123''),
        (''object'', JStr ''chat.completion''),
        (''created'', JNum 1700000000),
        (''model'', JStr ''gpt-5-2025-08-07''),
        (''choices'', JArr [JObj
           [(''index'', JNum 0),
            (''message'', JObj [(''role'', JStr ''assistant''), (''content'', JStr ''Hello'')]),
            (''finish_reason'', JStr ''stop'')]]),
        (''usage'', JObj
           [(''prompt_tokens'', JNum 3), (''completion_tokens'', JNum 5), (''total_tokens'', JNum 0)])])
   \<and> well_formed_upstream ex_empty_response_body
   \<and> convertResponseToChatCompletion show_int 1234 ex_empty_response_body =
     Inr (JObj
       [(''id'', JStr ''chatcmpl-1234''),
        (''object'', JStr ''chat.completion''),
        (''created'', JNum 1),
        (''model'', JStr ''unknown-model''),
        (''choices'', JArr [JObj
           [(''index'', JNum 0),
            (''message'', JObj [(''role'', JStr ''assistant''), (''content'', JStr [])]),
            (''finish_reason'', JStr ''unknown'')]]),
        (''usage'', JObj
           [(''prompt_tokens'', JNum 0), (''completion_tokens'', JNum 0), (''total_tokens'', JNum 0)])])"
  using adapter_builds_completion [of ex_response_body show_int 1700000000000]
    adapter_builds_completion [of ex_empty_response_body show_int 1234]
  by (simp add: ex_response_body_def ex_empty_response_body_def well_formed_upstream_def wf_item_def
      wf_part_def is_obj_def is_message_def is_output_text_def body_field_def opt_prop_def
      first_message_item_def message_text_def part_text_def usage_counter_def or_else_def
      show_nat.simps digit_def)

subsection \<open>Fallback when the adapter fails\<close>

text \<open>
  C8. On \<^verbatim>\<open>/v1/chat/completions\<close> with an OpenAI-type model and a non-streaming request, when
  the upstream answered 2xx with a JSON body on which the adapter throws, the client gets
  that body, untranslated, with status 200.
\<close>

theorem adapter_failure_falls_back:
  assumes "resolved_type e req = Some ''openai''"
    and "sent_body (handleChatCompletions e req key (Inr up)) = Some tr"
    and "response_ok up"
    and "get_prop tr ''stream'' = Inr s" and "s \<noteq> Some (JBool True)"
    and "up_json up = Some data"
    and "convertResponseToChatCompletion (numberToString e) (date_now e) data = Inl err"
  shows "snd (handleChatCompletions e req key (Inr up)) = Json 200 data"
proof -
  from chat_after_fetch[OF assms(2)] assms(3) obtain modelId model where
    m: "resolved_model_id e req = Some modelId" and g: "getModelById e modelId = Some model"
    and r: "snd (handleChatCompletions e req key (Inr up)) = chat_relay e model modelId tr up"
    by auto
  have "model_type model = ''openai''" using assms(1) m g by (simp add: resolved_type_def)
  then show ?thesis using r assms(4-7) by (simp add: chat_relay_def)
qed

text \<open>An upstream body whose \<^verbatim>\<open>output\<close> is a string makes the adapter throw; the body comes back as it is.\<close>

theorem adapter_failure_falls_back_witness:
  "resolved_type (ex_env (Some ''auto'') None) (ex_req ex_chat_openai_body) = Some ''openai''
   \<and> sent_body (handleChatCompletions (ex_env (Some ''auto'') None) (ex_req ex_chat_openai_body)
        (Inr ''Bearer k'') (Inr (ex_up 200 ''{}'' (Some (JObj [(''output'', JStr ''oops'')])))))
       = Some (JObj ex_chat_openai_body)
   \<and> response_ok (ex_up 200 ''{}'' (Some (JObj [(''output'', JStr ''oops'')])))
   \<and> get_prop (JObj ex_chat_openai_body) ''stream'' = Inr (Some (JBool False))
   \<and> convertResponseToChatCompletion (numberToString (ex_env (Some ''auto'') None))
        (date_now (ex_env (Some ''auto'') None)) (JObj [(''output'', JStr ''oops'')]) = Inl TypeError
   \<and> snd (handleChatCompletions (ex_env (Some ''auto'') None) (ex_req ex_chat_openai_body)
        (Inr ''Bearer k'') (Inr (ex_up 200 ''{}'' (Some (JObj [(''output'', JStr ''oops'')])))))
       = Json 200 (JObj [(''output'', JStr ''oops'')])"
  using adapter_failure_falls_back [of "ex_env (Some ''auto'') None" "ex_req ex_chat_openai_body"
      "Inr ''Bearer k''" "ex_up 200 ''{}'' (Some (JObj [(''output'', JStr ''oops'')]))"
      "JObj ex_chat_openai_body" "Some (JBool False)" "JObj [(''output'', JStr ''oops'')]" TypeError]
  by (simp add: ex_defs handleChatCompletions_def
      convertResponseToChatCompletion_def opt_prop_def)

subsection \<open>Streaming or not\<close>







subsection \<open>The client's credential\<close>

text \<open>The argument of \<^verbatim>\<open>getApiKey\<close>, when a handler calls it.\<close>

lemma responses_asked:
  assumes "asked_credential (handleDirectResponses e req key up) = Some c"
  shows "c = client_credential (req_headers req)"
  using assms
  by (auto simp: asked_credential_def handleDirectResponses_def Let_def
      model_required_def model_not_found_def invalid_endpoint_type_def endpoint_not_found_def
      split: sum.splits option.splits if_splits)

lemma messages_asked:
  assumes "asked_credential (handleDirectMessages e req key up) = Some c"
  shows "c = client_credential (req_headers req)"
  using assms
  by (auto simp: asked_credential_def handleDirectMessages_def Let_def
      split: sum.splits option.splits if_splits)

lemma count_asked:
  assumes "asked_credential (handleCountTokens e req key up) = Some c"
  shows "c = client_credential (req_headers req)"
  using assms
  by (auto simp: asked_credential_def handleCountTokens_def Let_def
      split: sum.splits option.splits if_splits)

lemma chat_asked:
  assumes "asked_credential (handleChatCompletions e req key up) = Some c"
  shows "c = req_headers req ''authorization''"
  using assms
  by (auto simp: asked_credential_def handleChatCompletions_def Let_def
      split: sum.splits option.splits if_splits)

text \<open>
  C10. When the client sends no \<^verbatim>\<open>authorization\<close> header and an \<^verbatim>\<open>x-api-key\<close> header,
  \<^verbatim>\<open>/v1/responses\<close>, \<^verbatim>\<open>/v1/messages\<close> and \<^verbatim>\<open>/v1/messages/count_tokens\<close> pass \<^verbatim>\<open>Bearer <x-api-key>\<close>
  to the credential lookup as the client's credential; \<^verbatim>\<open>/v1/chat/completions\<close> passes the
  \<^verbatim>\<open>authorization\<close> header, whatever the headers are, and so never the \<^verbatim>\<open>x-api-key\<close>.
\<close>

theorem x_api_key_becomes_bearer:
  "(req_headers req ''authorization'' = None \<and> req_headers req ''x-api-key'' = Some k \<and> k \<noteq> [] \<longrightarrow>
      (asked_credential (handleDirectResponses e req key up) = Some c1 \<longrightarrow> c1 = Some (''Bearer '' @ k))
    \<and> (asked_credential (handleDirectMessages e req key up) = Some c2 \<longrightarrow> c2 = Some (''Bearer '' @ k))
    \<and> (asked_credential (handleCountTokens e req key up) = Some c3 \<longrightarrow> c3 = Some (''Bearer '' @ k)))
   \<and> (asked_credential (handleChatCompletions e req key up) = Some c4 \<longrightarrow>
        c4 = req_headers req ''authorization'')"
proof (intro conjI impI)
  assume h: "req_headers req ''authorization'' = None \<and> req_headers req ''x-api-key'' = Some k \<and> k \<noteq> []"
  then have c: "client_credential (req_headers req) = Some (''Bearer '' @ k)"
    by (simp add: client_credential_def)
  show "c1 = Some (''Bearer '' @ k)"
    if "asked_credential (handleDirectResponses e req key up) = Some c1"
    using responses_asked[OF that] c by simp
  show "c2 = Some (''Bearer '' @ k)"
    if "asked_credential (handleDirectMessages e req key up) = Some c2"
    using messages_asked[OF that] c by simp
  show "c3 = Some (''Bearer '' @ k)"
    if "asked_credential (handleCountTokens e req key up) = Some c3"
    using count_asked[OF that] c by simp
next
  assume "asked_credential (handleChatCompletions e req key up) = Some c4"
  then show "c4 = req_headers req ''authorization''" by (rule chat_asked)
qed

text \<open>
  The four routes asked with the header \<^verbatim>\<open>x-api-key: sk-ant-123\<close> alone, and the chat route
  asked with both headers: it passes the \<^verbatim>\<open>authorization\<close> header.
\<close>

theorem x_api_key_becomes_bearer_witness:
  "req_headers (ex_keyed_req ex_messages_body) ''authorization'' = None
   \<and> req_headers (ex_keyed_req ex_messages_body) ''x-api-key'' = Some ''sk-ant-123''
   \<and> asked_credential (handleDirectMessages (ex_env (Some ''auto'') None) (ex_keyed_req ex_messages_body)
        (Inr ''Bearer k'') ex_ok) = Some (Some ''Bearer sk-ant-123'')
   \<and> asked_credential (handleDirectResponses (ex_env (Some ''auto'') None) (ex_keyed_req ex_responses_body)
        (Inr ''Bearer k'') ex_ok) = Some (Some ''Bearer sk-ant-123'')
   \<and> asked_credential (handleCountTokens (ex_env (Some ''auto'') None) (ex_keyed_req ex_count_body)
        (Inr ''Bearer k'') ex_ok) = Some (Some ''Bearer sk-ant-123'')
   \<and> asked_credential (handleChatCompletions (ex_env (Some ''auto'') None) (ex_keyed_req ex_chat_body)
        (Inr ''Bearer k'') ex_ok) = Some None
   \<and> req_headers (ex_both_req ex_chat_body) ''authorization'' = Some ''Bearer client-token''
   \<and> req_headers (ex_both_req ex_chat_body) ''x-api-key'' = Some ''sk-ant-123''
   \<and> asked_credential (handleChatCompletions (ex_env (Some ''auto'') None) (ex_both_req ex_chat_body)
        (Inr ''Bearer k'') ex_ok) = Some (Some ''Bearer client-token'')"
  using
    x_api_key_becomes_bearer [of "ex_keyed_req ex_messages_body" "''sk-ant-123''"
      "ex_env (Some ''auto'') None" "Inr ''Bearer k''" ex_ok _ "Some ''Bearer sk-ant-123''"]
    x_api_key_becomes_bearer [of "ex_keyed_req ex_chat_body" "''sk-ant-123''"
      "ex_env (Some ''auto'') None" "Inr ''Bearer k''" ex_ok _ _ _ None]
    x_api_key_becomes_bearer [of "ex_both_req ex_chat_body" "''sk-ant-123''"
      "ex_env (Some ''auto'') None" "Inr ''Bearer k''" ex_ok _ _ _ "Some ''Bearer client-token''"]
  by (simp add: ex_defs asked_credential_def client_credential_def
      handleDirectMessages_def messages_modifiedRequest_def
      handleDirectResponses_def responses_modifiedRequest_def
      handleCountTokens_def handleChatCompletions_def transformToCommon_def)

end
